theory Spec2Isabelle
  imports
    Complex_Main
    "HOL-Library.AList"
    "HOL-Library.Multiset"
    "HOL-Library.Char_ord"
    "HOL-Library.List_Lexorder"
begin

section \<open>Shared data model (src/utils.py)\<close>

text \<open>
  Python floats and SQLite \<open>REAL\<close> columns are read as the real numbers they denote; NaN
  is outside this development, and so is rounding, except in the two subtractions whose
  result is compared with a threshold. Python dictionaries whose iteration order matters
  (\<open>scores\<close>, \<open>all_returns\<close>) are association lists in insertion order with distinct
  keys; dictionaries that are only looked up are maps.
\<close>

definition COINS :: "string list" where
  "COINS = [''BTCUSD'', ''ETHUSD'', ''SOLUSD'', ''ADAUSD'', ''DOGEUSD'', ''AVAXUSD'',
            ''LINKUSD'', ''MATICUSD'', ''DOTUSD'', ''LTCUSD'', ''BCHUSD'', ''XLMUSD'',
            ''ALGOUSD'', ''UNIUSD'', ''AAVEUSD'', ''MKRUSD'']"

text \<open>
  One row of the \<open>trades\<close> table of \<open>init_database\<close>. \<open>None\<close> is SQL \<open>NULL\<close>. The 96
  per-coin \<open>REAL\<close> columns (\<open>BTCUSD_return_1h\<close>, ...) are one map from the column name.
\<close>

record trade_row =
  row_id :: nat
  date :: string
  chosen_coin :: "string option"
  chosen_score :: "real option"
  actual_24h_return_of_chosen :: "real option"
  rank_of_chosen :: "nat option"
  coin_columns :: "string \<rightharpoonup> real"
  news_headlines :: "string option"
  perplexity_summary :: "string option"
  model_version :: "int option"

text \<open>
  One row of the \<open>model_history\<close> table. Its \<open>id\<close> and \<open>date\<close> columns are
  \<open>history_id\<close> and \<open>history_date\<close> here.
\<close>

record history_row =
  history_id :: nat
  history_date :: string
  version :: int
  scorer_code :: string
  spearman_correlation :: real
  avg_daily_return :: real
  improvement_type :: string

text \<open>
  What survives a run: the two tables of \<open>trades.db\<close>, the file \<open>current_scorer.py\<close>
  (\<open>None\<close> when it does not exist) and the files \<open>current_scorer.py.backup.v<n>\<close>.
\<close>

record system =
  trades :: "trade_row list"
  model_history :: "history_row list"
  current_scorer_file :: "string option"
  backup_files :: "int \<rightharpoonup> string"

text \<open>
  The exceptions that can leave a function of the source: \<open>ScorerRaised\<close> is any
  exception raised inside \<open>score_coin\<close>, \<open>IOFailure\<close> an \<open>OSError\<close> or
  \<open>sqlite3.Error\<close> of a write.
\<close>

datatype py_error = KeyError | ValueError | TypeError | ScorerRaised | IOFailure

text \<open>
  A loaded \<open>score_coin(return_24h, return_6h, volume_ratio, news_sentiment)\<close>. An
  argument is a float or Python's \<open>None\<close> (which a \<open>NULL\<close> column yields); the result
  is the score, or \<open>None\<close> when the call raises. A strategy that returns something
  other than a number is outside this development.
\<close>

type_synonym scorer =
  "real option \<Rightarrow> real option \<Rightarrow> real option \<Rightarrow> real option \<Rightarrow> real option"

text \<open>
  What the source takes from outside the repository: the Python interpreter
  (\<open>exec(scorer_code, namespace); namespace.get('score_coin')\<close>, \<open>None\<close> when \<open>exec\<close>
  raises or defines no \<open>score_coin\<close>), \<open>scipy.stats.spearmanr\<close>, the regular
  expression search \<open>re.search(r'def score_coin\([^)]+\):.*?return\s+\w+', code, re.DOTALL)\<close>,
  and the subtraction \<open>a - b\<close> of two floats, which rounds: \<open>float_sub a b\<close> is the float
  the interpreter computes, and it is the exact difference only where that is a float.
\<close>

record py_env =
  exec_scorer :: "string \<Rightarrow> scorer option"
  spearmanr :: "nat list \<Rightarrow> nat list \<Rightarrow> real"
  search_score_coin :: "string \<Rightarrow> string option"
  float_sub :: "real \<Rightarrow> real \<Rightarrow> real"

text \<open>\<open>dict.get(key, default)\<close>.\<close>

definition dict_get :: "('k \<rightharpoonup> 'v) \<Rightarrow> 'k \<Rightarrow> 'v \<Rightarrow> 'v" where
  "dict_get d k dflt = (case d k of Some v \<Rightarrow> v | None \<Rightarrow> dflt)"

text \<open>
  \<open>sorted(items, key=..., reverse=True)\<close>: Python's sort is stable, and with
  \<open>reverse=True\<close> elements with equal keys keep their original order, so it is the
  stable ascending sort on the negated key.
\<close>

definition py_sorted_desc :: "('a \<Rightarrow> real) \<Rightarrow> 'a list \<Rightarrow> 'a list" where
  "py_sorted_desc key xs = sort_key (\<lambda>x. - key x) xs"

section \<open>Result recorder (src/04\_record\_results.py)\<close>

text \<open>
  The \<open>for rank, (coin, return_pct) in enumerate(sorted_coins, 1)\<close> loop of
  \<open>calculate_rank\<close>: the first position whose coin is the chosen one.
\<close>

fun find_rank :: "nat \<Rightarrow> string \<Rightarrow> (string \<times> real) list \<Rightarrow> nat option" where
  "find_rank rank chosen [] = None"
| "find_rank rank chosen ((coin, return_pct) # rest) =
     (if coin = chosen then Some rank else find_rank (Suc rank) chosen rest)"

definition calculate_rank ::
  "string \<Rightarrow> (string \<times> real) list \<Rightarrow> nat \<times> (string \<times> real) list" where
  "calculate_rank chosen all_returns =
     (let sorted_coins = py_sorted_desc snd all_returns
      in case find_rank 1 chosen sorted_coins of
           Some rank \<Rightarrow> (rank, sorted_coins)
         | None \<Rightarrow> (16, sorted_coins))"

section \<open>Prediction engine (src/03\_predict\_and\_trade.py)\<close>

text \<open>
  \<open>max(scores.items(), key=lambda x: x[1])\<close>: the first item with the greatest value
  (a later item replaces the best one only when strictly greater); \<open>ValueError\<close> on an
  empty sequence.
\<close>

definition py_max_item :: "(string \<times> real) list \<Rightarrow> py_error + (string \<times> real)" where
  "py_max_item items =
     (case items of
        [] \<Rightarrow> Inl ValueError
      | x # xs \<Rightarrow> Inr (fold (\<lambda>y best. if snd best < snd y then y else best) xs x))"

text \<open>
  The loop of \<open>predict_best_coin\<close> over the coins still to visit, with the \<open>scores\<close>
  dictionary built so far. \<open>price_data\<close> maps a coin to its snapshot dictionary,
  \<open>sentiment\<close> is \<open>sentiment_data.get('sentiment', {})\<close>. The call of
  \<open>current_scorer.score_coin\<close> stands in no \<open>try\<close>: when it raises, the exception leaves
  the function.
\<close>

fun predict_scores ::
  "scorer \<Rightarrow> (string \<rightharpoonup> (string \<rightharpoonup> real)) \<Rightarrow> (string \<rightharpoonup> real) \<Rightarrow> string list
     \<Rightarrow> (string \<times> real) list \<Rightarrow> py_error + (string \<times> real) list" where
  "predict_scores score_coin price_data sentiment [] scores = Inr scores"
| "predict_scores score_coin price_data sentiment (coin # coins) scores =
     (case price_data coin of
        None \<Rightarrow> predict_scores score_coin price_data sentiment coins scores
      | Some coin_price \<Rightarrow>
          (case sentiment coin of
             None \<Rightarrow> predict_scores score_coin price_data sentiment coins scores
           | Some coin_sentiment \<Rightarrow>
               (case score_coin (Some (dict_get coin_price ''return_24h'' 0))
                                (Some (dict_get coin_price ''return_6h'' 0))
                                (Some (dict_get coin_price ''volume_ratio'' 1))
                                (Some coin_sentiment) of
                  None \<Rightarrow> Inl ScorerRaised
                | Some score \<Rightarrow>
                    predict_scores score_coin price_data sentiment coins
                      (AList.update coin score scores))))"

definition predict_best_coin ::
  "scorer \<Rightarrow> (string \<rightharpoonup> (string \<rightharpoonup> real)) \<Rightarrow> (string \<rightharpoonup> real)
     \<Rightarrow> py_error + (string \<times> real \<times> (string \<times> real) list)" where
  "predict_best_coin score_coin price_data sentiment =
     (case predict_scores score_coin price_data sentiment COINS [] of
        Inl e \<Rightarrow> Inl e
      | Inr scores \<Rightarrow>
          if scores = [] then Inl ValueError
          else (case py_max_item scores of
                  Inl e \<Rightarrow> Inl e
                | Inr best_coin \<Rightarrow> Inr (fst best_coin, snd best_coin, scores)))"

text \<open>
  \<open>record_prediction\<close> on the \<open>trades\<close> table, with \<open>today\<close> the formatted current date.
  The \<open>UPDATE ... WHERE date = ?\<close> rewrites the two prediction columns of every row of
  that date; the \<open>INSERT\<close> leaves every other column \<open>NULL\<close>, \<open>model_version\<close> at its
  default 1, and takes the next \<open>AUTOINCREMENT\<close> id.
\<close>

definition next_id :: "trade_row list \<Rightarrow> nat" where
  "next_id tbl = Suc (fold max (map row_id tbl) 0)"

definition update_prediction :: "string \<Rightarrow> real \<Rightarrow> string \<Rightarrow> trade_row \<Rightarrow> trade_row" where
  "update_prediction coin score today r =
     (if date r = today then r\<lparr>chosen_coin := Some coin, chosen_score := Some score\<rparr> else r)"

definition insert_prediction :: "string \<Rightarrow> real \<Rightarrow> string \<Rightarrow> trade_row list \<Rightarrow> trade_row" where
  "insert_prediction coin score today tbl =
     \<lparr>row_id = next_id tbl, date = today, chosen_coin = Some coin,
      chosen_score = Some score, actual_24h_return_of_chosen = None,
      rank_of_chosen = None, coin_columns = Map.empty, news_headlines = None,
      perplexity_summary = None, model_version = Some 1\<rparr>"

definition record_prediction ::
  "string \<Rightarrow> real \<Rightarrow> string \<Rightarrow> trade_row list \<Rightarrow> trade_row list" where
  "record_prediction coin score today tbl =
     (let existing = find (\<lambda>r. date r = today) tbl
      in if existing \<noteq> None
         then map (update_prediction coin score today) tbl
         else tbl @ [insert_prediction coin score today tbl])"

section \<open>Self-improvement engine (src/05\_self\_improve.py)\<close>

subsection \<open>\<open>backtest_scorer\<close>\<close>

text \<open>
  The query of \<open>backtest_scorer\<close>: the rows with a recorded outcome, most recent date
  first (dates are \<open>UNIQUE\<close> text, compared bytewise), at most \<open>days\<close> of them.
\<close>

definition resolved :: "trade_row \<Rightarrow> bool" where
  "resolved r = (actual_24h_return_of_chosen r \<noteq> None)"

definition fetch_resolved :: "trade_row list \<Rightarrow> nat \<Rightarrow> trade_row list" where
  "fetch_resolved tbl days = take days (rev (sort_key date (filter resolved tbl)))"

text \<open>
  \<open>row_dict.get(f'{coin}_return_24h', 0)\<close> and its siblings: \<open>dict(row)\<close> has every column
  of the table as a key, so the default never applies and a \<open>NULL\<close> column is read as
  Python's \<open>None\<close>.
\<close>

definition row_get :: "trade_row \<Rightarrow> string \<Rightarrow> string \<Rightarrow> real option" where
  "row_get row coin suffix = coin_columns row (coin @ suffix)"

text \<open>
  The inner loop over \<open>COINS\<close>: a call of \<open>score_func\<close> that raises is caught and the
  coin gets the score 0.
\<close>

definition score_or_zero :: "scorer \<Rightarrow> trade_row \<Rightarrow> string \<Rightarrow> real" where
  "score_or_zero score_func row coin =
     (case score_func (row_get row coin ''_return_24h'') (row_get row coin ''_return_6h'')
                      (row_get row coin ''_volume_ratio'') (row_get row coin ''_news_sentiment'') of
        Some score \<Rightarrow> score
      | None \<Rightarrow> 0)"

definition score_all :: "scorer \<Rightarrow> trade_row \<Rightarrow> (string \<times> real) list" where
  "score_all score_func row =
     fold (\<lambda>coin scores. AList.update coin (score_or_zero score_func row coin) scores) COINS []"

text \<open>
  \<open>{coin: i+1 for i, (coin, _) in enumerate(sorted_items)}\<close> (the keys of \<open>sorted_items\<close>
  are those of a dictionary, hence distinct) and \<open>[ranking[coin] for coin in COINS]\<close>,
  which raises \<open>KeyError\<close> on a coin that has no rank.
\<close>

definition rank_dict :: "(string \<times> real) list \<Rightarrow> (string \<times> nat) list" where
  "rank_dict sorted_items = zip (map fst sorted_items) [1 ..< Suc (length sorted_items)]"

definition lookup_all :: "(string \<times> nat) list \<Rightarrow> string list \<Rightarrow> py_error + nat list" where
  "lookup_all ranking coins =
     (case those (map (map_of ranking) coins) of
        None \<Rightarrow> Inl KeyError
      | Some ranks \<Rightarrow> Inr ranks)"

text \<open>
  \<open>actual_returns = {coin: row_dict.get(f'{coin}_return_24h', 0) for coin in COINS}\<close>
  sorted by value: comparing \<open>None\<close> raises \<open>TypeError\<close>, so the sort needs every value.
\<close>

definition actual_returns_of :: "trade_row \<Rightarrow> (string \<times> real option) list" where
  "actual_returns_of row = map (\<lambda>coin. (coin, row_get row coin ''_return_24h'')) COINS"

definition known_returns :: "(string \<times> real option) list \<Rightarrow> py_error + (string \<times> real) list" where
  "known_returns actual_returns =
     (if \<exists>item \<in> set actual_returns. snd item = None then Inl TypeError
      else Inr (map (\<lambda>item. (fst item, the (snd item))) actual_returns))"

text \<open>
  One iteration of the loop over the fetched rows: \<open>None\<close> is the \<open>continue\<close> on an empty
  \<open>scores\<close>, otherwise the two rank lists of the day and the realized return of the
  predicted coin.
\<close>

definition backtest_day ::
  "scorer \<Rightarrow> trade_row \<Rightarrow> py_error + (nat list \<times> nat list \<times> real) option" where
  "backtest_day score_func row =
     (let scores = score_all score_func row
      in if scores = [] then Inr None
         else case py_max_item scores of
           Inl e \<Rightarrow> Inl e
         | Inr best \<Rightarrow>
             (let predicted_coin = fst best;
                  sorted_by_score = py_sorted_desc snd scores;
                  predicted_ranking = rank_dict sorted_by_score
              in case known_returns (actual_returns_of row) of
                Inl e \<Rightarrow> Inl e
              | Inr actual_returns \<Rightarrow>
                  (let sorted_by_return = py_sorted_desc snd actual_returns;
                       actual_ranking = rank_dict sorted_by_return
                   in case lookup_all predicted_ranking COINS of
                     Inl e \<Rightarrow> Inl e
                   | Inr predicted_ranks_for_day \<Rightarrow>
                       (case lookup_all actual_ranking COINS of
                          Inl e \<Rightarrow> Inl e
                        | Inr actual_ranks_for_day \<Rightarrow>
                            Inr (Some (predicted_ranks_for_day, actual_ranks_for_day,
                                       dict_get (map_of actual_returns) predicted_coin 0))))))"

fun backtest_loop ::
  "scorer \<Rightarrow> trade_row list \<Rightarrow> nat list \<times> nat list \<times> real list
     \<Rightarrow> py_error + (nat list \<times> nat list \<times> real list)" where
  "backtest_loop score_func [] acc = Inr acc"
| "backtest_loop score_func (row # rows) (all_predicted_ranks, all_actual_ranks, daily_returns) =
     (case backtest_day score_func row of
        Inl e \<Rightarrow> Inl e
      | Inr None \<Rightarrow>
          backtest_loop score_func rows (all_predicted_ranks, all_actual_ranks, daily_returns)
      | Inr (Some (predicted_ranks_for_day, actual_ranks_for_day, actual_return)) \<Rightarrow>
          backtest_loop score_func rows
            (all_predicted_ranks @ predicted_ranks_for_day,
             all_actual_ranks @ actual_ranks_for_day,
             daily_returns @ [actual_return]))"

text \<open>
  \<open>np.mean\<close>; of an empty list it is NaN in numpy and 0 here, and \<open>backtest_scorer\<close>
  reaches it with one return per fetched row, of which there are at least 10.
\<close>

definition np_mean :: "real list \<Rightarrow> real" where
  "np_mean xs = sum_list xs / real (length xs)"

text \<open>
  \<open>backtest_scorer(scorer_code, days)\<close>: \<open>Inr None\<close> is the return value \<open>(None, None)\<close>,
  \<open>Inl\<close> an exception that leaves the function.
\<close>

definition backtest_scorer ::
  "py_env \<Rightarrow> trade_row list \<Rightarrow> string \<Rightarrow> nat \<Rightarrow> py_error + (real \<times> real) option" where
  "backtest_scorer env tbl code days =
     (let rows = fetch_resolved tbl days
      in if length rows < 10 then Inr None
         else case exec_scorer env code of
           None \<Rightarrow> Inr None
         | Some score_func \<Rightarrow>
             (case backtest_loop score_func rows ([], [], []) of
                Inl e \<Rightarrow> Inl e
              | Inr (all_predicted_ranks, all_actual_ranks, daily_returns) \<Rightarrow>
                  if length all_predicted_ranks < 10 then Inr None
                  else Inr (Some (spearmanr env all_predicted_ranks all_actual_ranks,
                                  np_mean daily_returns))))"

subsection \<open>Current performance and version\<close>

text \<open>
  \<open>get_current_performance\<close>: \<open>AVG(actual_24h_return_of_chosen)\<close> and \<open>COUNT(*)\<close> over
  all rows with a recorded outcome.
\<close>

definition get_current_performance :: "trade_row list \<Rightarrow> real option \<times> nat" where
  "get_current_performance tbl =
     (let outcomes = map (\<lambda>r. the (actual_24h_return_of_chosen r)) (filter resolved tbl)
      in if 0 < length outcomes
         then (Some (sum_list outcomes / real (length outcomes)), length outcomes)
         else (None, 0))"

text \<open>
  \<open>get_current_model_version\<close>: \<open>SELECT MAX(model_version) FROM trades\<close> (the greatest
  value that is not \<open>NULL\<close>), and 1 when that is \<open>NULL\<close> or 0.
\<close>

definition sql_max :: "int option list \<Rightarrow> int option" where
  "sql_max vs =
     (case map the (filter (\<lambda>v. v \<noteq> None) vs) of
        [] \<Rightarrow> None
      | x # xs \<Rightarrow> Some (fold max xs x))"

definition get_current_model_version :: "trade_row list \<Rightarrow> int" where
  "get_current_model_version tbl =
     (case sql_max (map model_version tbl) of
        None \<Rightarrow> 1
      | Some max_version \<Rightarrow> if max_version \<noteq> 0 then max_version else 1)"

subsection \<open>\<open>upgrade_model\<close>\<close>

fun string_of_nat :: "nat \<Rightarrow> string" where
  "string_of_nat n =
     (if n < 10 then [char_of (48 + n)]
      else string_of_nat (n div 10) @ [char_of (48 + n mod 10)])"

definition string_of_int :: "int \<Rightarrow> string" where
  "string_of_int i = (if i < 0 then ''-'' @ string_of_nat (nat (- i)) else string_of_nat (nat i))"

definition startswith :: "string \<Rightarrow> string \<Rightarrow> bool" where
  "startswith s p = (take (length p) s = p)"

text \<open>
  \<open>str.strip()\<close> removes the characters for which \<open>str.isspace\<close> holds from both ends.
  Strings are UTF-8 here, so \<open>whitespace\<close> lists the encodings of these characters:
  U+0009 to U+000D, U+001C to U+0020, U+0085, U+00A0, U+1680, U+2000 to U+200A, U+2028,
  U+2029, U+202F, U+205F and U+3000.
\<close>

definition whitespace :: "string list" where
  "whitespace =
     [[CHR 0x09], [CHR 0x0A], [CHR 0x0B], [CHR 0x0C], [CHR 0x0D],
      [CHR 0x1C], [CHR 0x1D], [CHR 0x1E], [CHR 0x1F], [CHR 0x20],
      [CHR 0xC2, CHR 0x85], [CHR 0xC2, CHR 0xA0], [CHR 0xE1, CHR 0x9A, CHR 0x80],
      [CHR 0xE2, CHR 0x80, CHR 0x80], [CHR 0xE2, CHR 0x80, CHR 0x81],
      [CHR 0xE2, CHR 0x80, CHR 0x82], [CHR 0xE2, CHR 0x80, CHR 0x83],
      [CHR 0xE2, CHR 0x80, CHR 0x84], [CHR 0xE2, CHR 0x80, CHR 0x85],
      [CHR 0xE2, CHR 0x80, CHR 0x86], [CHR 0xE2, CHR 0x80, CHR 0x87],
      [CHR 0xE2, CHR 0x80, CHR 0x88], [CHR 0xE2, CHR 0x80, CHR 0x89],
      [CHR 0xE2, CHR 0x80, CHR 0x8A], [CHR 0xE2, CHR 0x80, CHR 0xA8],
      [CHR 0xE2, CHR 0x80, CHR 0xA9], [CHR 0xE2, CHR 0x80, CHR 0xAF],
      [CHR 0xE2, CHR 0x81, CHR 0x9F], [CHR 0xE3, CHR 0x80, CHR 0x80]]"

function lstrip_any :: "string list \<Rightarrow> string \<Rightarrow> string" where
  "lstrip_any ws s =
     (case find (\<lambda>w. w \<noteq> [] \<and> startswith s w) ws of
        None \<Rightarrow> s
      | Some w \<Rightarrow> lstrip_any ws (drop (length w) s))"
  by pat_completeness auto
termination
proof (relation "measure (\<lambda>(ws, s). length s)")
  show "wf (measure (\<lambda>(ws, s). length s))" by simp
next
  fix ws :: "string list" and s w :: string
  assume "find (\<lambda>w. w \<noteq> [] \<and> startswith s w) ws = Some w"
  then have w: "w \<noteq> []" and t: "take (length w) s = w"
    by (auto simp: find_Some_iff startswith_def)
  have "length (take (length w) s) = min (length w) (length s)"
    by simp
  with t have "length w \<le> length s"
    by simp
  moreover from w have "0 < length w"
    by simp
  ultimately have "length s - length w < length s"
    by arith
  then show "((ws, drop (length w) s), (ws, s)) \<in> measure (\<lambda>(ws, s). length s)"
    by simp
qed

definition py_strip :: "string \<Rightarrow> string" where
  "py_strip s = rev (lstrip_any (map rev whitespace) (rev (lstrip_any whitespace s)))"

definition ends_with_newline :: "string \<Rightarrow> bool" where
  "ends_with_newline s = (s \<noteq> [] \<and> last s = CHR 0x0A)"

text \<open>The \<open>Ensure the code is properly formatted\<close> step.\<close>

definition format_code :: "py_env \<Rightarrow> string \<Rightarrow> string" where
  "format_code env new_scorer_code =
     (if \<not> startswith (py_strip new_scorer_code) ''def''
      then (case search_score_coin env new_scorer_code of
              Some func_match \<Rightarrow> func_match
            | None \<Rightarrow> new_scorer_code)
      else new_scorer_code)"

text \<open>The text written to \<open>current_scorer.py\<close> (the dash of the header is U+2013).\<close>

definition scorer_file_text :: "int \<Rightarrow> string \<Rightarrow> string" where
  "scorer_file_text new_version code =
     ''# Version '' @ string_of_int new_version @ '' '' @ [CHR 0xE2, CHR 0x80, CHR 0x93]
       @ '' auto-upgraded by self-improvement engine'' @ [CHR 0x0A]
       @ code @ (if ends_with_newline code then [] else [CHR 0x0A])"

text \<open>
  The three writes of \<open>upgrade_model\<close>, in the order of the source: the backup of the old
  file, the new \<open>current_scorer.py\<close>, the committed \<open>INSERT\<close> into \<open>model_history\<close>.
\<close>

definition backup_old_version :: "system \<Rightarrow> system" where
  "backup_old_version s =
     (case current_scorer_file s of
        None \<Rightarrow> s
      | Some old_code \<Rightarrow>
          s\<lparr>backup_files := (backup_files s)(get_current_model_version (trades s) \<mapsto> old_code)\<rparr>)"

definition write_new_version :: "py_env \<Rightarrow> string \<Rightarrow> system \<Rightarrow> system" where
  "write_new_version env new_scorer_code s =
     s\<lparr>current_scorer_file :=
         Some (scorer_file_text (get_current_model_version (trades s) + 1)
                 (format_code env new_scorer_code))\<rparr>"

text \<open>The values of the \<open>INSERT INTO model_history\<close>, with the next \<open>AUTOINCREMENT\<close> id.\<close>

definition history_entry ::
  "py_env \<Rightarrow> string \<Rightarrow> string \<Rightarrow> real \<Rightarrow> real \<Rightarrow> string \<Rightarrow> system \<Rightarrow> history_row" where
  "history_entry env today new_scorer_code correlation avg_return improvement s =
     \<lparr>history_id = Suc (fold max (map history_id (model_history s)) 0),
      history_date = today,
      version = get_current_model_version (trades s) + 1,
      scorer_code = format_code env new_scorer_code,
      spearman_correlation = correlation,
      avg_daily_return = avg_return,
      improvement_type = improvement\<rparr>"

definition record_in_history ::
  "py_env \<Rightarrow> string \<Rightarrow> string \<Rightarrow> real \<Rightarrow> real \<Rightarrow> string \<Rightarrow> system \<Rightarrow> system" where
  "record_in_history env today new_scorer_code correlation avg_return improvement s =
     s\<lparr>model_history := model_history s @
         [history_entry env today new_scorer_code correlation avg_return improvement s]\<rparr>"

text \<open>
  The source has neither a handler nor a transaction around the three writes, so when an
  operation raises, the exception leaves \<open>upgrade_model\<close> there and what was written
  before stays. \<open>io_fault\<close> names the operation that raises, if any:
  \<^item> \<open>BackupOpenFails\<close>: reading the old file or opening the backup file; nothing is written.
  \<^item> \<open>BackupWriteFails n\<close>: \<open>f.write(old_code)\<close> after \<open>open(backup_file, 'w')\<close> has created
    or truncated the backup file, which is left with the first \<open>n\<close> characters.
  \<^item> \<open>ScorerOpenFails\<close>: the second read of the version or \<open>open(scorer_file, 'w')\<close>; the
    active file is untouched.
  \<^item> \<open>ScorerWriteFails n\<close>: a \<open>f.write\<close> after \<open>open(scorer_file, 'w')\<close> has truncated the
    active file, which is left with the first \<open>n\<close> characters of the new text.
  \<^item> \<open>InsertFails\<close>: connecting, the \<open>INSERT\<close> or the commit; no row is added.
  Each stage returns the state it leaves and the exception, if it raised.
\<close>

datatype io_fault =
  NoFault | BackupOpenFails | BackupWriteFails nat | ScorerOpenFails | ScorerWriteFails nat
  | InsertFails

definition backup_stage :: "io_fault \<Rightarrow> system \<Rightarrow> system \<times> py_error option" where
  "backup_stage fault s =
     (case current_scorer_file s of
        None \<Rightarrow> (s, None)
      | Some old_code \<Rightarrow>
          (case fault of
             BackupOpenFails \<Rightarrow> (s, Some IOFailure)
           | BackupWriteFails n \<Rightarrow>
               (s\<lparr>backup_files :=
                    (backup_files s)(get_current_model_version (trades s) \<mapsto> take n old_code)\<rparr>,
                Some IOFailure)
           | _ \<Rightarrow> (backup_old_version s, None)))"

definition write_stage ::
  "io_fault \<Rightarrow> py_env \<Rightarrow> string \<Rightarrow> system \<Rightarrow> system \<times> py_error option" where
  "write_stage fault env new_scorer_code s =
     (case fault of
        ScorerOpenFails \<Rightarrow> (s, Some IOFailure)
      | ScorerWriteFails n \<Rightarrow>
          (s\<lparr>current_scorer_file :=
               Some (take n (scorer_file_text (get_current_model_version (trades s) + 1)
                               (format_code env new_scorer_code)))\<rparr>,
           Some IOFailure)
      | _ \<Rightarrow> (write_new_version env new_scorer_code s, None))"

definition insert_stage ::
  "io_fault \<Rightarrow> py_env \<Rightarrow> string \<Rightarrow> string \<Rightarrow> real \<Rightarrow> real \<Rightarrow> string \<Rightarrow> system
     \<Rightarrow> system \<times> py_error option" where
  "insert_stage fault env today new_scorer_code correlation avg_return improvement s =
     (case fault of
        InsertFails \<Rightarrow> (s, Some IOFailure)
      | _ \<Rightarrow> (record_in_history env today new_scorer_code correlation avg_return
                improvement s, None))"

definition upgrade_model_io ::
  "io_fault \<Rightarrow> py_env \<Rightarrow> string \<Rightarrow> string \<Rightarrow> real \<Rightarrow> real \<Rightarrow> string \<Rightarrow> system
     \<Rightarrow> system \<times> py_error option" where
  "upgrade_model_io fault env today new_scorer_code correlation avg_return improvement s =
     (case backup_stage fault s of
        (s1, Some e) \<Rightarrow> (s1, Some e)
      | (s1, None) \<Rightarrow>
          (case write_stage fault env new_scorer_code s1 of
             (s2, Some e) \<Rightarrow> (s2, Some e)
           | (s2, None) \<Rightarrow>
               insert_stage fault env today new_scorer_code correlation avg_return
                 improvement s2))"

definition upgrade_model ::
  "py_env \<Rightarrow> string \<Rightarrow> string \<Rightarrow> real \<Rightarrow> real \<Rightarrow> string \<Rightarrow> system \<Rightarrow> system" where
  "upgrade_model env today new_scorer_code correlation avg_return improvement s =
     fst (upgrade_model_io NoFault env today new_scorer_code correlation avg_return improvement s)"

subsection \<open>The long-term step and \<open>main\<close>\<close>

text \<open>\<open>corr_improvement >= 0.04 or return_improvement >= 0.25\<close>, in both cycles.\<close>

definition threshold_met :: "real \<Rightarrow> real \<Rightarrow> bool" where
  "threshold_met corr_improvement return_improvement =
     (corr_improvement \<ge> 0.04 \<or> return_improvement \<ge> 0.25)"

text \<open>
  \<open>get_current_scorer_code\<close> is the field \<open>current_scorer_file\<close>. Passing \<open>None\<close> as code
  makes \<open>exec\<close> raise inside \<open>backtest_scorer\<close>, which returns \<open>(None, None)\<close>.
\<close>

definition backtest_current :: "py_env \<Rightarrow> system \<Rightarrow> py_error + (real \<times> real) option" where
  "backtest_current env s =
     (case current_scorer_file s of
        None \<Rightarrow> Inr None
      | Some code \<Rightarrow> backtest_scorer env (trades s) code 180)"

text \<open>
  \<open>long_term_improvement\<close>. \<open>has_key\<close> says whether \<open>PERPLEXITY_KEY\<close> is set; \<open>answer\<close> is
  the code extracted from the oracle's reply, \<open>None\<close> when the request raises. Everything
  from the request on stands in one \<open>try\<close> whose handler only logs.
  \<open>long_term_deltas\<close> is lines 391 and 392, \<open>long_term_decision\<close> lines 383 to 395: a
  baseline of 0 counts as no baseline there, and so gives the improvement 0.
\<close>

definition long_term_deltas ::
  "py_env \<Rightarrow> real \<Rightarrow> real \<Rightarrow> real \<Rightarrow> real \<Rightarrow> real \<times> real" where
  "long_term_deltas env correlation avg_return_new current_corr current_avg =
     (if current_corr \<noteq> 0 then float_sub env correlation current_corr else 0,
      if current_avg \<noteq> 0 then float_sub env avg_return_new current_avg else 0)"

definition long_term_decision ::
  "py_env \<Rightarrow> string \<Rightarrow> string \<Rightarrow> real \<Rightarrow> real \<Rightarrow> system \<Rightarrow> system" where
  "long_term_decision env today code correlation avg_return_new s =
     (case backtest_current env s of
        Inl e \<Rightarrow> s
      | Inr None \<Rightarrow> s
      | Inr (Some (current_corr, unused)) \<Rightarrow>
          (case fst (get_current_performance (trades s)) of
             None \<Rightarrow> s
           | Some current_avg \<Rightarrow>
               (case long_term_deltas env correlation avg_return_new current_corr current_avg of
                  (corr_improvement, return_improvement) \<Rightarrow>
                    if threshold_met corr_improvement return_improvement
                    then upgrade_model env today code correlation avg_return_new ''long_term'' s
                    else s)))"

definition long_term_improvement ::
  "py_env \<Rightarrow> string \<Rightarrow> bool \<Rightarrow> string option \<Rightarrow> system \<Rightarrow> system" where
  "long_term_improvement env today has_key answer s =
     (if length (filter resolved (trades s)) < 30 then s
      else if \<not> has_key then s
      else case answer of
        None \<Rightarrow> s
      | Some code \<Rightarrow>
          (case backtest_scorer env (trades s) code 180 of
             Inl e \<Rightarrow> s
           | Inr None \<Rightarrow> s
           | Inr (Some (correlation, avg_return_new)) \<Rightarrow>
               long_term_decision env today code correlation avg_return_new s))"

text \<open>
  Lines 436 to 447 of \<open>main\<close>: the baseline of the comparison and the two improvements.
  The correlation of the active strategy comes from its backtest (0 when that returns
  \<open>None\<close>), the return from \<open>get_current_performance\<close> (0 when there is none).
\<close>

definition daily_deltas ::
  "py_env \<Rightarrow> system \<Rightarrow> string \<Rightarrow> real \<Rightarrow> real \<Rightarrow> py_error + real \<times> real" where
  "daily_deltas env s current_scorer_code correlation avg_return =
     (case backtest_scorer env (trades s) current_scorer_code 180 of
        Inl e \<Rightarrow> Inl e
      | Inr current \<Rightarrow>
          (let current_corr = (case current of None \<Rightarrow> 0 | Some (c, unused) \<Rightarrow> c);
               current_avg = (case fst (get_current_performance (trades s)) of
                                None \<Rightarrow> 0 | Some a \<Rightarrow> a)
           in Inr (float_sub env correlation current_corr,
                   float_sub env avg_return current_avg)))"

text \<open>
  Lines 436 to 461: promote or not. An empty file is as falsy as a missing one.
\<close>

definition daily_decision ::
  "py_env \<Rightarrow> string \<Rightarrow> string \<Rightarrow> real \<Rightarrow> real \<Rightarrow> system \<Rightarrow> py_error + system" where
  "daily_decision env today new_scorer_code correlation avg_return s =
     (case current_scorer_file s of
        None \<Rightarrow> Inr (upgrade_model env today new_scorer_code correlation avg_return ''initial'' s)
      | Some current_scorer_code \<Rightarrow>
          if current_scorer_code = []
          then Inr (upgrade_model env today new_scorer_code correlation avg_return ''initial'' s)
          else (case daily_deltas env s current_scorer_code correlation avg_return of
                  Inl e \<Rightarrow> Inl e
                | Inr (corr_improvement, return_improvement) \<Rightarrow>
                    if threshold_met corr_improvement return_improvement
                    then Inr (upgrade_model env today new_scorer_code correlation avg_return
                                ''daily'' s)
                    else Inr s))"

text \<open>
  \<open>main\<close>. \<open>yesterday\<close> and \<open>today\<close> are the formatted dates, \<open>new_scorer_code\<close> the
  answer of \<open>ask_perplexity_why_right_wrong\<close> (\<open>None\<close> without key or on an error),
  \<open>days_since_start\<close> the days since 2024-01-01; \<open>has_key\<close> and \<open>answer\<close> go to the
  long-term step. Each early \<open>return\<close> ends the run before step 4.
\<close>

definition main ::
  "py_env \<Rightarrow> string \<Rightarrow> string \<Rightarrow> string option \<Rightarrow> nat \<Rightarrow> bool \<Rightarrow> string option \<Rightarrow> system
     \<Rightarrow> py_error + system" where
  "main env today yesterday new_scorer_code days_since_start has_key answer s =
     (case find (\<lambda>r. date r = yesterday) (trades s) of
        None \<Rightarrow> Inr s
      | Some yesterday_data \<Rightarrow>
          (case new_scorer_code of
             None \<Rightarrow> Inr s
           | Some code \<Rightarrow>
               if code = [] then Inr s
               else (case backtest_scorer env (trades s) code 180 of
                       Inl e \<Rightarrow> Inl e
                     | Inr None \<Rightarrow> Inr s
                     | Inr (Some (correlation, avg_return)) \<Rightarrow>
                         (case daily_decision env today code correlation avg_return s of
                            Inl e \<Rightarrow> Inl e
                          | Inr s' \<Rightarrow>
                              if days_since_start mod 30 = 0
                              then Inr (long_term_improvement env today has_key answer s')
                              else Inr s'))))"

section \<open>The backtest as the specification words it\<close>

text \<open>
  The specification of the backtest engine, written down independently of the loop of
  \<open>backtest_scorer\<close>: per day, every asset is scored (a failing call counts 0), the assets
  are ranked by score descending and by realized return descending, ties in canonical
  order; the pairs of 1-indexed positions of every asset of every day form one pooled
  sequence; the result is the Spearman coefficient of that sequence, with the mean over the
  days of the realized return of the asset ranked first by score.
\<close>

definition position_of :: "'a \<Rightarrow> 'a list \<Rightarrow> nat" where
  "position_of x xs = Suc (length (takeWhile (\<lambda>y. y \<noteq> x) xs))"

definition realized_return :: "trade_row \<Rightarrow> string \<Rightarrow> real" where
  "realized_return row coin =
     (case row_get row coin ''_return_24h'' of Some r \<Rightarrow> r | None \<Rightarrow> 0)"

definition returns_known :: "trade_row \<Rightarrow> bool" where
  "returns_known row = (\<forall>coin \<in> set COINS. row_get row coin ''_return_24h'' \<noteq> None)"

definition spec_predicted_order :: "scorer \<Rightarrow> trade_row \<Rightarrow> string list" where
  "spec_predicted_order f row =
     map fst (py_sorted_desc snd (map (\<lambda>coin. (coin, score_or_zero f row coin)) COINS))"

definition spec_actual_order :: "trade_row \<Rightarrow> string list" where
  "spec_actual_order row =
     map fst (py_sorted_desc snd (map (\<lambda>coin. (coin, realized_return row coin)) COINS))"

definition spec_rank_pairs :: "scorer \<Rightarrow> trade_row \<Rightarrow> (nat \<times> nat) list" where
  "spec_rank_pairs f row =
     map (\<lambda>coin. (position_of coin (spec_predicted_order f row),
                  position_of coin (spec_actual_order row))) COINS"

definition spec_pick_return :: "scorer \<Rightarrow> trade_row \<Rightarrow> real" where
  "spec_pick_return f row = realized_return row (hd (spec_predicted_order f row))"

definition spec_backtest :: "py_env \<Rightarrow> scorer \<Rightarrow> trade_row list \<Rightarrow> real \<times> real" where
  "spec_backtest env f rows =
     (let pairs = concat (map (spec_rank_pairs f) rows)
      in (spearmanr env (map fst pairs) (map snd pairs),
          sum_list (map (spec_pick_return f) rows) / real (length rows)))"

section \<open>Example inputs\<close>

text \<open>
  A strategy as source text and as loaded function (multiplying \<open>None\<close> raises), a
  second text that is only ever file content, and an environment whose interpreter knows
  the first text and is asked for one other text, which is no Python. Its \<open>spearmanr\<close> is a stand-in that is 1 on identical lists and 0
  otherwise: the examples only correlate identical rank lists that are not constant, for
  which Spearman's coefficient is 1. Its \<open>float_sub\<close> is the exact difference: the
  examples only subtract floats whose difference is a float (1 - 1, 1 - 0, 1.25 - 1,
  0.25 - 0, 0.04 - 0 and 0.0399999 - 0).
\<close>

definition momentum_code :: string where
  "momentum_code =
     ''def score_coin(return_24h, return_6h, volume_ratio, news_sentiment): return return_24h * 1.0''"

definition volume_code :: string where
  "volume_code =
     ''def score_coin(return_24h, return_6h, volume_ratio, news_sentiment): return volume_ratio * 1.0''"

definition momentum :: scorer where
  "momentum return_24h return_6h volume_ratio news_sentiment =
     map_option (\<lambda>r. r * 1) return_24h"

definition example_env :: py_env where
  "example_env =
     \<lparr>exec_scorer = (\<lambda>code. if code = momentum_code then Some momentum else None),
      spearmanr = (\<lambda>predicted actual. if predicted = actual then 1 else 0),
      search_score_coin = (\<lambda>code. None),
      float_sub = (\<lambda>a b. a - b)\<rparr>"

text \<open>
  A resolved day on which BTCUSD returned 1 percent and every other coin 0, every other
  per-coin column being 0, and on which the bot had chosen the coin \<open>chosen\<close>; outcome and
  rank are what \<open>src/04_record_results.py\<close> records for that choice. The first \<open>k\<close> days
  of March 2024 as the \<open>trades\<close> table; a system with these trades, no history and the
  given \<open>current_scorer.py\<close>.
\<close>

definition example_columns :: "string \<rightharpoonup> real" where
  "example_columns = (\<lambda>column. Some 0)(''BTCUSD_return_24h'' \<mapsto> 1)"

definition example_outcome :: "string \<Rightarrow> real" where
  "example_outcome coin = dict_get example_columns (coin @ ''_return_24h'') 0"

definition example_date :: "nat \<Rightarrow> string" where
  "example_date n = ''2024-03-'' @ [char_of (48 + n div 10), char_of (48 + n mod 10)]"

definition example_day :: "nat \<Rightarrow> string \<Rightarrow> trade_row" where
  "example_day n chosen =
     \<lparr>row_id = n, date = example_date n, chosen_coin = Some chosen, chosen_score = Some 0,
      actual_24h_return_of_chosen = Some (example_outcome chosen),
      rank_of_chosen =
        Some (fst (calculate_rank chosen (map (\<lambda>coin. (coin, example_outcome coin)) COINS))),
      coin_columns = example_columns,
      news_headlines = Some [], perplexity_summary = Some [], model_version = Some 1\<rparr>"

definition example_trades :: "nat \<Rightarrow> string \<Rightarrow> trade_row list" where
  "example_trades k chosen = map (\<lambda>n. example_day n chosen) [1 ..< Suc k]"

definition example_system :: "nat \<Rightarrow> string \<Rightarrow> string option \<Rightarrow> system" where
  "example_system k chosen file =
     \<lparr>trades = example_trades k chosen, model_history = [],
      current_scorer_file = file, backup_files = Map.empty\<rparr>"

definition example_row :: trade_row where
  "example_row =
     \<lparr>row_id = 1, date = ''2024-05-01'', chosen_coin = Some ''BTCUSD'',
      chosen_score = Some 1, actual_24h_return_of_chosen = Some 2,
      rank_of_chosen = Some 3, coin_columns = Map.empty(''BTCUSD_return_24h'' \<mapsto> 2),
      news_headlines = Some ''h'', perplexity_summary = Some ''s'', model_version = Some 1\<rparr>"

text \<open>
  Inputs of the prediction engine: a strategy that adds the 24h return and the volume
  ratio, one that divides them (and so raises on a volume ratio of 0), price data for two
  coins only (one snapshot without any field), sentiment for three coins, and price data
  in which BTCUSD has the volume ratio 0.
\<close>

definition volume_scorer :: scorer where
  "volume_scorer return_24h return_6h volume_ratio news_sentiment =
     (case (return_24h, volume_ratio) of
        (Some r, Some v) \<Rightarrow> Some (r + v)
      | _ \<Rightarrow> None)"

definition ratio_scorer :: scorer where
  "ratio_scorer return_24h return_6h volume_ratio news_sentiment =
     (case (return_24h, volume_ratio) of
        (Some r, Some v) \<Rightarrow> if v = 0 then None else Some (r / v)
      | _ \<Rightarrow> None)"

definition example_prices :: "string \<rightharpoonup> (string \<rightharpoonup> real)" where
  "example_prices =
     map_of [(''ETHUSD'', [''return_24h'' \<mapsto> 2, ''volume_ratio'' \<mapsto> 3]),
             (''SOLUSD'', Map.empty)]"

definition example_sentiment :: "string \<rightharpoonup> real" where
  "example_sentiment = map_of [(''BTCUSD'', 0.9), (''ETHUSD'', 0.5), (''SOLUSD'', 0)]"

definition zero_volume_prices :: "string \<rightharpoonup> (string \<rightharpoonup> real)" where
  "zero_volume_prices =
     map_of [(''BTCUSD'', [''return_24h'' \<mapsto> 1, ''volume_ratio'' \<mapsto> 0]),
             (''ETHUSD'', [''return_24h'' \<mapsto> 2, ''volume_ratio'' \<mapsto> 1])]"

declare string_of_nat.simps [simp del]

declare lstrip_any.simps [simp del]

section \<open>Properties of the result recorder\<close>

lemma find_rank_bounds:
  "find_rank n c xs = Some r \<Longrightarrow> n \<le> r \<and> r < n + length xs"
  by (induction n c xs rule: find_rank.induct) (auto split: if_splits)

lemma find_rank_position:
  "find_rank n c xs = Some r \<Longrightarrow>
     fst (xs ! (r - n)) = c \<and> (\<forall>i < r - n. fst (xs ! i) \<noteq> c)"
proof (induction n c xs rule: find_rank.induct)
  case (1 rank chosen)
  then show ?case by simp
next
  case (2 rank chosen coin return_pct rest)
  show ?case
  proof (cases "coin = chosen")
    case True
    with 2 show ?thesis by simp
  next
    case False
    with 2 have f: "find_rank (Suc rank) chosen rest = Some r" by simp
    from find_rank_bounds [OF f] have b: "Suc rank \<le> r" by simp
    then have e: "r - rank = Suc (r - Suc rank)" by arith
    from 2(1) [OF False f] b e False show ?thesis
      by (auto simp: nth_Cons split: nat.splits)
  qed
qed

lemma find_rank_found:
  "c \<in> fst ` set xs \<Longrightarrow> \<exists>r. find_rank n c xs = Some r"
  by (induction n c xs rule: find_rank.induct) auto

lemma py_sorted_desc_sorted:
  "sorted_wrt (\<lambda>a b. key a \<ge> key b) (py_sorted_desc key xs)"
proof -
  have "sorted (map (\<lambda>x. - key x) (sort_key (\<lambda>x. - key x) xs))"
    by (rule sorted_sort_key)
  then show ?thesis
    by (simp add: py_sorted_desc_def sorted_map sorted_wrt_iff_nth_less)
qed

lemma py_sorted_desc_mset [simp]: "mset (py_sorted_desc key xs) = mset xs"
  by (simp add: py_sorted_desc_def)

lemma py_sorted_desc_set [simp]: "set (py_sorted_desc key xs) = set xs"
  by (simp add: py_sorted_desc_def)

lemma py_sorted_desc_length [simp]: "length (py_sorted_desc key xs) = length xs"
  by (simp add: py_sorted_desc_def)

text \<open>
  C9. The rank that \<open>calculate_rank\<close> returns is at least 1 and, for at most 16 assets
  (the universe has 16), at most 16; the list it returns is the assets in descending
  order of realized return; when the chosen asset is one of them, the rank is the
  1-indexed position of the chosen asset in that list. For returns A = 5, B = -2,
  C = 9 and chosen asset A the rank is 2.
\<close>

theorem calculate_rank_is_position:
  assumes "length all_returns \<le> 16"
  shows "1 \<le> fst (calculate_rank chosen all_returns)
       \<and> fst (calculate_rank chosen all_returns) \<le> 16
       \<and> sorted_wrt (\<lambda>a b. snd a \<ge> snd b) (snd (calculate_rank chosen all_returns))
       \<and> mset (snd (calculate_rank chosen all_returns)) = mset all_returns
       \<and> (chosen \<in> fst ` set all_returns \<longrightarrow>
            fst (calculate_rank chosen all_returns) \<le> length all_returns
          \<and> fst (snd (calculate_rank chosen all_returns)
                  ! (fst (calculate_rank chosen all_returns) - 1)) = chosen
          \<and> (\<forall>i < fst (calculate_rank chosen all_returns) - 1.
                fst (snd (calculate_rank chosen all_returns) ! i) \<noteq> chosen))
       \<and> fst (calculate_rank ''A'' [(''A'', 5), (''B'', -2), (''C'', 9)]) = 2"
proof -
  let ?s = "py_sorted_desc snd all_returns"
  have snd_eq: "snd (calculate_rank chosen all_returns) = ?s"
    by (simp add: calculate_rank_def Let_def split: option.splits)
  have len: "length ?s \<le> 16" using assms by simp
  have bounds: "1 \<le> fst (calculate_rank chosen all_returns)
              \<and> fst (calculate_rank chosen all_returns) \<le> 16"
  proof (cases "find_rank 1 chosen ?s")
    case None
    then show ?thesis by (simp add: calculate_rank_def)
  next
    case (Some r)
    from find_rank_bounds [OF Some] len have "1 \<le> r \<and> r \<le> 16" by simp
    with Some show ?thesis by (simp add: calculate_rank_def)
  qed
  have pos: "fst (calculate_rank chosen all_returns) \<le> length all_returns
          \<and> fst (?s ! (fst (calculate_rank chosen all_returns) - 1)) = chosen
          \<and> (\<forall>i < fst (calculate_rank chosen all_returns) - 1. fst (?s ! i) \<noteq> chosen)"
    if mem: "chosen \<in> fst ` set all_returns"
  proof -
    from mem have "chosen \<in> fst ` set ?s" by simp
    from find_rank_found [OF this] obtain r where r: "find_rank 1 chosen ?s = Some r"
      by blast
    have fst_eq: "fst (calculate_rank chosen all_returns) = r"
      using r by (simp add: calculate_rank_def)
    from find_rank_bounds [OF r] have "r \<le> length all_returns" by simp
    with find_rank_position [OF r] fst_eq show ?thesis by simp
  qed
  have example: "fst (calculate_rank ''A'' [(''A'', 5), (''B'', -2), (''C'', 9)]) = 2"
    by (simp add: calculate_rank_def py_sorted_desc_def)
  show ?thesis
    using bounds pos example py_sorted_desc_sorted [of snd all_returns]
    by (simp add: snd_eq)
qed

theorem calculate_rank_is_position_witness:
  "length [(''A'', 5::real), (''B'', -2), (''C'', 9)] \<le> 16
   \<and> ''A'' \<in> fst ` set [(''A'', 5::real), (''B'', -2), (''C'', 9)]
   \<and> calculate_rank ''A'' [(''A'', 5), (''B'', -2), (''C'', 9)]
       = (2, [(''C'', 9), (''A'', 5), (''B'', -2)])
   \<and> fst (snd (calculate_rank ''A'' [(''A'', 5), (''B'', -2), (''C'', 9)])
            ! (fst (calculate_rank ''A'' [(''A'', 5), (''B'', -2), (''C'', 9)]) - 1)) = ''A''"
  using calculate_rank_is_position [of "[(''A'', 5), (''B'', -2), (''C'', 9)]" "''A''"]
  by (simp add: calculate_rank_def py_sorted_desc_def)


section \<open>Properties of recording a prediction\<close>

lemma find_date_iff:
  "(\<exists>y. find (\<lambda>r. date r = today) tbl = Some y) \<longleftrightarrow> today \<in> date ` set tbl"
proof -
  have "(find (\<lambda>r. date r = today) tbl = None) \<longleftrightarrow> today \<notin> date ` set tbl"
    by (auto simp: find_None_iff)
  then show ?thesis by auto
qed

lemma date_update_prediction [simp]: "date (update_prediction coin score today r) = date r"
  by (simp add: update_prediction_def)

lemma update_prediction_idem:
  "update_prediction coin score today (update_prediction coin score today r)
     = update_prediction coin score today r"
  by (simp add: update_prediction_def)

lemma record_prediction_present:
  "today \<in> date ` set tbl \<Longrightarrow>
     record_prediction coin score today tbl = map (update_prediction coin score today) tbl"
  by (simp add: record_prediction_def find_date_iff)

lemma record_prediction_absent:
  "today \<notin> date ` set tbl \<Longrightarrow>
     record_prediction coin score today tbl
       = tbl @ [insert_prediction coin score today tbl]"
  by (simp add: record_prediction_def find_date_iff)

lemma record_prediction_twice:
  "record_prediction coin score today (record_prediction coin score today tbl)
     = record_prediction coin score today tbl"
proof (cases "today \<in> date ` set tbl")
  case True
  have "date ` set (map (update_prediction coin score today) tbl) = date ` set tbl"
    by (simp add: image_image)
  with True have "today \<in> date ` set (map (update_prediction coin score today) tbl)"
    by blast
  from record_prediction_present [OF this] record_prediction_present [OF True]
  show ?thesis
    by (simp add: update_prediction_idem)
next
  case False
  let ?new = "insert_prediction coin score today tbl"
  have u: "map (update_prediction coin score today) tbl = tbl"
    using False by (intro map_idI) (auto simp: update_prediction_def)
  have i: "update_prediction coin score today ?new = ?new"
    by (simp add: update_prediction_def insert_prediction_def)
  have "date ?new = today"
    by (simp add: insert_prediction_def)
  then have "today \<in> date ` set (tbl @ [?new])"
    by (metis image_eqI in_set_conv_decomp)
  from record_prediction_present [OF this] record_prediction_absent [OF False]
  show ?thesis
    by (simp add: u i)
qed

text \<open>
  C10. When the date already has a row, \<open>record_prediction\<close> adds no row, rewrites
  \<open>chosen_coin\<close> and \<open>chosen_score\<close> of the rows of that date and nothing else (every
  outcome and feature column of every row is as before), and recording the same
  prediction a second time changes nothing.
\<close>

theorem record_prediction_existing_date:
  assumes "today \<in> date ` set tbl"
  shows "length (record_prediction coin score today tbl) = length tbl
       \<and> (\<forall>i < length tbl.
            record_prediction coin score today tbl ! i
              = (if date (tbl ! i) = today
                 then (tbl ! i)\<lparr>chosen_coin := Some coin, chosen_score := Some score\<rparr>
                 else tbl ! i))
       \<and> map date (record_prediction coin score today tbl) = map date tbl
       \<and> map actual_24h_return_of_chosen (record_prediction coin score today tbl)
           = map actual_24h_return_of_chosen tbl
       \<and> map rank_of_chosen (record_prediction coin score today tbl)
           = map rank_of_chosen tbl
       \<and> map coin_columns (record_prediction coin score today tbl)
           = map coin_columns tbl
       \<and> map news_headlines (record_prediction coin score today tbl)
           = map news_headlines tbl
       \<and> map perplexity_summary (record_prediction coin score today tbl)
           = map perplexity_summary tbl
       \<and> map model_version (record_prediction coin score today tbl)
           = map model_version tbl
       \<and> map row_id (record_prediction coin score today tbl) = map row_id tbl
       \<and> record_prediction coin score today (record_prediction coin score today tbl)
           = record_prediction coin score today tbl"
proof -
  have 1: "record_prediction coin score today tbl
             = map (update_prediction coin score today) tbl"
    using assms by (rule record_prediction_present)
  show ?thesis
    unfolding record_prediction_twice
    by (simp add: 1 update_prediction_def)
qed

theorem record_prediction_existing_date_witness:
  "''2024-05-01'' \<in> date ` set [example_row]
   \<and> record_prediction ''ETHUSD'' 7 ''2024-05-01'' [example_row]
       = [example_row\<lparr>chosen_coin := Some ''ETHUSD'', chosen_score := Some 7\<rparr>]
   \<and> map actual_24h_return_of_chosen (record_prediction ''ETHUSD'' 7 ''2024-05-01'' [example_row])
       = [Some 2]"
  using record_prediction_existing_date [of "''2024-05-01''" "[example_row]" "''ETHUSD''" 7]
  by (simp add: example_row_def record_prediction_def update_prediction_def)


section \<open>The backtest loop against the specification\<close>

lemma distinct_COINS: "distinct COINS"
  by (simp add: COINS_def)

lemma length_COINS: "length COINS = 16"
  by (simp add: COINS_def)

lemma update_fresh: "k \<notin> fst ` set al \<Longrightarrow> AList.update k v al = al @ [(k, v)]"
  by (induction al) auto

lemma fold_update_distinct:
  "distinct cs \<Longrightarrow> set cs \<inter> fst ` set al = {} \<Longrightarrow>
     fold (\<lambda>c acc. AList.update c (g c) acc) cs al = al @ map (\<lambda>c. (c, g c)) cs"
proof (induction cs arbitrary: al)
  case Nil
  then show ?case by simp
next
  case (Cons c cs)
  from Cons.prems have fresh: "c \<notin> fst ` set al" by auto
  have "set cs \<inter> fst ` set (al @ [(c, g c)]) = {}"
    using Cons.prems by auto
  with Cons.IH [of "al @ [(c, g c)]"] Cons.prems show ?case
    by (simp add: update_fresh [OF fresh])
qed

lemma score_all_eq:
  "score_all f row = map (\<lambda>coin. (coin, score_or_zero f row coin)) COINS"
  unfolding score_all_def
  using fold_update_distinct [OF distinct_COINS, of "[]" "score_or_zero f row"] by simp

lemma map_of_zip_upt:
  "c \<in> set keys \<Longrightarrow>
     map_of (zip keys [k ..< k + length keys]) c = Some (k + length (takeWhile (\<lambda>y. y \<noteq> c) keys))"
proof (induction keys arbitrary: k)
  case Nil
  then show ?case by simp
next
  case (Cons a keys)
  have upt: "[k ..< k + length (a # keys)] = k # [Suc k ..< Suc k + length keys]"
    by (simp add: upt_conv_Cons del: upt_Suc)
  show ?case
  proof (cases "a = c")
    case True
    then show ?thesis unfolding upt by simp
  next
    case False
    with Cons.prems have "c \<in> set keys" by simp
    from Cons.IH [OF this, of "Suc k"] False show ?thesis
      unfolding upt by simp
  qed
qed

lemma those_map_Some: "those (map Some xs) = Some xs"
  by (induction xs) auto

lemma lookup_all_rank_dict:
  assumes "set coins \<subseteq> fst ` set items"
  shows "lookup_all (rank_dict items) coins
           = Inr (map (\<lambda>c. position_of c (map fst items)) coins)"
proof -
  have "map (map_of (rank_dict items)) coins
          = map Some (map (\<lambda>c. position_of c (map fst items)) coins)"
  proof (simp, intro ballI)
    fix c assume "c \<in> set coins"
    with assms have "c \<in> set (map fst items)" by auto
    from map_of_zip_upt [OF this, of 1]
    show "map_of (rank_dict items) c = Some (position_of c (map fst items))"
      by (simp add: rank_dict_def position_of_def)
  qed
  then show ?thesis
    by (simp add: lookup_all_def those_map_Some del: map_map)
qed

lemma hd_insort_key:
  "hd (insort_key f x ys) = (if ys = [] \<or> f x \<le> f (hd ys) then x else hd ys)"
  by (cases ys) auto

lemma insort_key_nonempty [simp]: "insort_key f x ys \<noteq> []"
  by (cases ys) auto

lemma sort_key_nonempty: "xs \<noteq> [] \<Longrightarrow> sort_key f xs \<noteq> []"
  by (cases xs) auto

lemma hd_sort_key_Cons:
  "hd (sort_key f (x # xs)) = (if xs = [] \<or> f x \<le> f (hd (sort_key f xs)) then x else hd (sort_key f xs))"
  by (cases xs) (auto simp: hd_insort_key)

lemma hd_sort_key_le:
  "y \<in> set xs \<Longrightarrow> f (hd (sort_key f xs)) \<le> f y"
proof -
  assume y: "y \<in> set xs"
  then have "set (sort_key f xs) \<noteq> {}" by auto
  then have ne: "sort_key f xs \<noteq> []" by (simp del: set_sort)
  have "sorted (map f (sort_key f xs))" by (rule sorted_sort_key)
  moreover have "y \<in> set (sort_key f xs)" using y by simp
  ultimately show ?thesis using ne
    by (cases "sort_key f xs") auto
qed


lemma hd_sort_key_drop_second:
  fixes f :: "'a \<Rightarrow> real"
  assumes "f b \<le> f x"
  shows "hd (sort_key f (b # x # xs)) = hd (sort_key f (b # xs))"
proof (cases "xs = []")
  case True
  with assms show ?thesis by simp
next
  case False
  show ?thesis
  proof (cases "f x \<le> f (hd (sort_key f xs))")
    case True
    with assms False show ?thesis
      by (simp add: hd_sort_key_Cons del: sort_key_simps)
  next
    case nle: False
    with assms False show ?thesis
      by (simp add: hd_sort_key_Cons del: sort_key_simps)
  qed
qed

lemma hd_sort_key_drop_first:
  fixes f :: "'a \<Rightarrow> real"
  assumes "f x < f b"
  shows "hd (sort_key f (b # x # xs)) = hd (sort_key f (x # xs))"
proof -
  have "f (hd (sort_key f (x # xs))) \<le> f x"
    by (rule hd_sort_key_le) simp
  with assms have "\<not> f b \<le> f (hd (sort_key f (x # xs)))" by simp
  then show ?thesis
    using hd_sort_key_Cons [of f b "x # xs"] by simp
qed

lemma fold_best_is_hd_sorted:
  "fold (\<lambda>y best. if snd best < snd y then y else best) xs b
     = hd (py_sorted_desc snd (b # xs))"
proof (induction xs arbitrary: b)
  case Nil
  then show ?case by (simp add: py_sorted_desc_def)
next
  case (Cons x xs)
  show ?case
  proof (cases "snd b < snd x")
    case True
    then have "hd (sort_key (\<lambda>x. - snd x) (b # x # xs)) = hd (sort_key (\<lambda>x. - snd x) (x # xs))"
      by (intro hd_sort_key_drop_first) simp
    with True Cons.IH [of x] show ?thesis
      by (simp add: py_sorted_desc_def del: sort_key_simps)
  next
    case False
    then have "hd (sort_key (\<lambda>x. - snd x) (b # x # xs)) = hd (sort_key (\<lambda>x. - snd x) (b # xs))"
      by (intro hd_sort_key_drop_second) simp
    with False Cons.IH [of b] show ?thesis
      by (simp add: py_sorted_desc_def del: sort_key_simps)
  qed
qed

lemma py_max_item_hd:
  "items \<noteq> [] \<Longrightarrow> py_max_item items = Inr (hd (py_sorted_desc snd items))"
  by (cases items) (simp_all add: py_max_item_def fold_best_is_hd_sorted)

lemma known_returns_eq:
  "returns_known row \<Longrightarrow>
     known_returns (actual_returns_of row)
       = Inr (map (\<lambda>coin. (coin, realized_return row coin)) COINS)"
  by (auto simp: known_returns_def actual_returns_of_def returns_known_def realized_return_def)

lemma COINS_nonempty: "COINS \<noteq> []"
  by (simp add: COINS_def)

lemma map_of_pairs:
  "c \<in> set cs \<Longrightarrow> map_of (map (\<lambda>coin. (coin, g coin)) cs) c = Some (g c)"
  by (induction cs) auto

lemma hd_in_set_sorted:
  "xs \<noteq> [] \<Longrightarrow> fst (hd (py_sorted_desc key xs)) \<in> fst ` set xs"
proof -
  assume "xs \<noteq> []"
  then have "py_sorted_desc key xs \<noteq> []"
    by (simp add: py_sorted_desc_def sort_key_nonempty)
  then have "hd (py_sorted_desc key xs) \<in> set (py_sorted_desc key xs)"
    by (rule hd_in_set)
  then show ?thesis by simp
qed

lemma backtest_day_eq:
  assumes "returns_known row"
  shows "backtest_day f row
           = Inr (Some (map fst (spec_rank_pairs f row), map snd (spec_rank_pairs f row),
                        spec_pick_return f row))"
proof -
  let ?scores = "map (\<lambda>coin. (coin, score_or_zero f row coin)) COINS"
  let ?rets = "map (\<lambda>coin. (coin, realized_return row coin)) COINS"
  have ne: "?scores \<noteq> []" using COINS_nonempty by simp
  have best: "py_max_item ?scores = Inr (hd (py_sorted_desc snd ?scores))"
    using ne by (rule py_max_item_hd)
  have pick_in: "fst (hd (py_sorted_desc snd ?scores)) \<in> set COINS"
    using hd_in_set_sorted [OF ne, of snd] by (auto simp: image_iff)
  have pick: "hd (spec_predicted_order f row) = fst (hd (py_sorted_desc snd ?scores))"
    using ne by (simp add: spec_predicted_order_def hd_map py_sorted_desc_def sort_key_nonempty)
  have l1: "lookup_all (rank_dict (py_sorted_desc snd ?scores)) COINS
              = Inr (map (\<lambda>c. position_of c (spec_predicted_order f row)) COINS)"
    unfolding spec_predicted_order_def
    by (rule lookup_all_rank_dict) (auto simp: image_iff)
  have l2: "lookup_all (rank_dict (py_sorted_desc snd ?rets)) COINS
              = Inr (map (\<lambda>c. position_of c (spec_actual_order row)) COINS)"
    unfolding spec_actual_order_def
    by (rule lookup_all_rank_dict) (auto simp: image_iff)
  have ret: "dict_get (map_of ?rets) (fst (hd (py_sorted_desc snd ?scores))) 0
               = spec_pick_return f row"
    using map_of_pairs [OF pick_in, of "realized_return row"]
    by (simp add: dict_get_def spec_pick_return_def pick)
  show ?thesis
    unfolding backtest_day_def score_all_eq Let_def known_returns_eq [OF assms]
    using ne by (simp add: best l1 l2 ret spec_rank_pairs_def comp_def)
qed

lemma backtest_loop_eq:
  assumes "\<forall>row \<in> set rows. returns_known row"
  shows "backtest_loop f rows (ps, qs, ds)
           = Inr (ps @ map fst (concat (map (spec_rank_pairs f) rows)),
                  qs @ map snd (concat (map (spec_rank_pairs f) rows)),
                  ds @ map (spec_pick_return f) rows)"
  using assms
proof (induction rows arbitrary: ps qs ds)
  case Nil
  then show ?case by simp
next
  case (Cons row rows)
  then have k: "returns_known row" and rest: "\<forall>row \<in> set rows. returns_known row"
    by simp_all
  show ?case
    by (simp add: backtest_day_eq [OF k] Cons.IH [OF rest])
qed

lemma length_spec_rank_pairs: "length (spec_rank_pairs f row) = 16"
  by (simp add: spec_rank_pairs_def length_COINS)

lemma length_concat_pairs:
  "length (concat (map (spec_rank_pairs f) rows)) = 16 * length rows"
  by (induction rows) (simp_all add: length_spec_rank_pairs)

lemma backtest_scorer_short:
  "length (fetch_resolved tbl days) < 10 \<Longrightarrow> backtest_scorer env tbl code days = Inr None"
  by (simp add: backtest_scorer_def)

lemma backtest_scorer_eq:
  assumes "10 \<le> length (fetch_resolved tbl days)"
    and "exec_scorer env code = Some f"
    and "\<forall>row \<in> set (fetch_resolved tbl days). returns_known row"
  shows "backtest_scorer env tbl code days
           = Inr (Some (spec_backtest env f (fetch_resolved tbl days)))"
proof -
  let ?rows = "fetch_resolved tbl days"
  have "\<not> 16 * length ?rows < 10" using assms(1) by simp
  then show ?thesis
    using assms(1,2)
    by (simp add: backtest_scorer_def backtest_loop_eq [OF assms(3)] length_concat_pairs
        spec_backtest_def Let_def np_mean_def)
qed

section \<open>Evaluating the examples\<close>

lemma length_fetch_resolved:
  "length (fetch_resolved tbl days) = min days (length (filter resolved tbl))"
  by (simp add: fetch_resolved_def min.commute)

lemma set_fetch_resolved: "set (fetch_resolved tbl days) \<subseteq> set tbl"
proof -
  have "set (take days (rev (sort_key date (filter resolved tbl))))
          \<subseteq> set (rev (sort_key date (filter resolved tbl)))"
    by (rule set_take_subset)
  then show ?thesis by (auto simp: fetch_resolved_def)
qed

lemma mean_of_constant:
  assumes "\<forall>x \<in> set xs. g x = (v::real)" and "xs \<noteq> []"
  shows "sum_list (map g xs) / real (length xs) = v"
proof -
  have "map g xs = replicate (length xs) v"
    using assms(1) by (simp add: map_replicate_const [symmetric] cong: map_cong)
  then have "sum_list (map g xs) = real (length xs) * v"
    by (simp add: sum_list_replicate)
  with assms(2) show ?thesis by simp
qed

lemma exec_momentum: "exec_scorer example_env momentum_code = Some momentum"
  by (simp add: example_env_def)

lemma example_day_known: "returns_known (example_day n chosen)"
  by (simp add: returns_known_def row_get_def example_day_def example_columns_def)

lemma example_day_momentum_pick: "spec_pick_return momentum (example_day n chosen) = 1"
  by (simp add: spec_pick_return_def spec_predicted_order_def realized_return_def
      score_or_zero_def row_get_def example_day_def example_columns_def momentum_def COINS_def
      py_sorted_desc_def)

lemma example_outcome_BTCUSD [simp]: "example_outcome ''BTCUSD'' = 1"
  by (simp add: example_outcome_def example_columns_def dict_get_def)

lemma example_outcome_ETHUSD [simp]: "example_outcome ''ETHUSD'' = 0"
  by (simp add: example_outcome_def example_columns_def dict_get_def)

lemma example_rows:
  "row \<in> set (example_trades k chosen) \<Longrightarrow> \<exists>n. row = example_day n chosen"
  by (auto simp: example_trades_def)

lemma example_resolved: "filter resolved (example_trades k chosen) = example_trades k chosen"
  by (simp add: example_trades_def resolved_def example_day_def)

lemma length_example_trades: "length (example_trades k chosen) = k"
  by (simp add: example_trades_def)

lemma example_window_length:
  "length (fetch_resolved (example_trades k chosen) 180) = min 180 k"
  by (simp add: length_fetch_resolved example_resolved length_example_trades)

lemma momentum_scores_are_returns:
  "score_or_zero momentum row coin = realized_return row coin"
  by (simp add: score_or_zero_def realized_return_def momentum_def split: option.splits)

lemma momentum_rank_pairs:
  "map fst (spec_rank_pairs momentum row) = map snd (spec_rank_pairs momentum row)"
  by (simp add: spec_rank_pairs_def spec_predicted_order_def spec_actual_order_def
      momentum_scores_are_returns comp_def)

lemma momentum_pooled_ranks:
  "map fst (concat (map (spec_rank_pairs momentum) rows))
     = map snd (concat (map (spec_rank_pairs momentum) rows))"
  by (induction rows) (simp_all add: momentum_rank_pairs)

lemma example_backtest_momentum:
  assumes "10 \<le> k"
  shows "backtest_scorer example_env (example_trades k chosen) momentum_code 180
           = Inr (Some (1, 1))"
proof -
  let ?rows = "fetch_resolved (example_trades k chosen) 180"
  have len: "10 \<le> length ?rows" using assms by (simp add: example_window_length)
  have sub: "\<forall>row \<in> set ?rows. \<exists>n. row = example_day n chosen"
    using set_fetch_resolved [of "example_trades k chosen" 180] example_rows by blast
  have known: "\<forall>row \<in> set ?rows. returns_known row"
    using sub example_day_known by auto
  have picks: "\<forall>row \<in> set ?rows. spec_pick_return momentum row = 1"
    using sub example_day_momentum_pick by auto
  have ne: "?rows \<noteq> []" using len by auto
  have corr: "spearmanr example_env (map fst (concat (map (spec_rank_pairs momentum) ?rows)))
                (map snd (concat (map (spec_rank_pairs momentum) ?rows))) = 1"
    unfolding momentum_pooled_ranks by (simp add: example_env_def)
  have "spec_backtest example_env momentum ?rows = (1, 1)"
    unfolding spec_backtest_def Let_def corr mean_of_constant [OF picks ne] ..
  with backtest_scorer_eq [OF len exec_momentum known] show ?thesis by simp
qed

lemma exec_broken: "exec_scorer example_env ''this is not python'' = None"
  by (simp add: example_env_def momentum_code_def)

lemma example_backtest_broken:
  "backtest_scorer example_env tbl ''this is not python'' days = Inr None"
  by (simp add: backtest_scorer_def Let_def exec_broken)

lemma sum_list_example_outcomes:
  "sum_list (map (\<lambda>r. the (actual_24h_return_of_chosen r)) (example_trades k chosen))
     = real k * example_outcome chosen"
proof -
  have "map (\<lambda>r. the (actual_24h_return_of_chosen r)) (example_trades k chosen)
          = replicate k (example_outcome chosen)"
    by (simp add: example_trades_def example_day_def comp_def map_replicate_const)
  then show ?thesis by (simp add: sum_list_replicate)
qed

lemma example_performance:
  "0 < k \<Longrightarrow> get_current_performance (example_trades k chosen) = (Some (example_outcome chosen), k)"
  unfolding get_current_performance_def example_resolved Let_def
  by (simp add: sum_list_example_outcomes length_example_trades)

lemma example_date_10: "example_date 10 = ''2024-03-10''"
  by code_simp

lemma find_Some_ex: "x \<in> set xs \<Longrightarrow> P x \<Longrightarrow> \<exists>y. find P xs = Some y"
  by (cases "find P xs") (auto simp: find_None_iff)

lemma example_yesterday:
  "10 \<le> k \<Longrightarrow> \<exists>row. find (\<lambda>r. date r = ''2024-03-10'') (example_trades k chosen) = Some row"
proof (rule find_Some_ex)
  assume "10 \<le> k"
  then have "10 \<in> set [1 ..< Suc k]" by auto
  then show "example_day 10 chosen \<in> set (example_trades k chosen)"
    unfolding example_trades_def set_map by (rule imageI)
  show "date (example_day 10 chosen) = ''2024-03-10''"
    by (simp add: example_day_def example_date_10)
qed

lemma trades_example [simp]: "trades (example_system k chosen file) = example_trades k chosen"
  by (simp add: example_system_def)

lemma file_example [simp]: "current_scorer_file (example_system k chosen file) = file"
  by (simp add: example_system_def)

lemma history_example [simp]: "model_history (example_system k chosen file) = []"
  by (simp add: example_system_def)

lemma momentum_code_nonempty: "momentum_code \<noteq> []"
  by (simp add: momentum_code_def)

section \<open>Promotion\<close>

lemma upgrade_model_io_no_fault:
  "upgrade_model_io NoFault env today code c a t s
     = (record_in_history env today code c a t
          (write_new_version env code (backup_old_version s)), None)"
  by (simp add: upgrade_model_io_def backup_stage_def write_stage_def insert_stage_def
      backup_old_version_def split: option.splits)

lemma upgrade_model_result:
  "upgrade_model env today code c a t s
     = s\<lparr>backup_files :=
           (case current_scorer_file s of
              None \<Rightarrow> backup_files s
            | Some old_code \<Rightarrow>
                (backup_files s)(get_current_model_version (trades s) \<mapsto> old_code)),
         current_scorer_file :=
           Some (scorer_file_text (get_current_model_version (trades s) + 1)
                   (format_code env code)),
         model_history := model_history s @ [history_entry env today code c a t s]\<rparr>"
  by (simp add: upgrade_model_def upgrade_model_io_no_fault record_in_history_def
      write_new_version_def backup_old_version_def history_entry_def split: option.splits)

lemma trades_upgrade_model [simp]:
  "trades (upgrade_model env today code c a t s) = trades s"
  by (simp add: upgrade_model_result)

lemma history_upgrade_model:
  "model_history (upgrade_model env today code c a t s)
     = model_history s @ [history_entry env today code c a t s]"
  by (simp add: upgrade_model_result)

lemma file_upgrade_model:
  "current_scorer_file (upgrade_model env today code c a t s)
     = Some (scorer_file_text (get_current_model_version (trades s) + 1) (format_code env code))"
  by (simp add: upgrade_model_result)

lemma upgrade_model_changes: "upgrade_model env today code c a t s \<noteq> s"
proof
  assume "upgrade_model env today code c a t s = s"
  then have "model_history (upgrade_model env today code c a t s) = model_history s"
    by simp
  then show False
    by (simp add: history_upgrade_model)
qed

lemma example_version: "0 < k \<Longrightarrow> get_current_model_version (example_trades k chosen) = 1"
proof -
  assume "0 < k"
  then obtain j where k: "k = Suc j" by (cases k) auto
  have "map model_version (example_trades k chosen) = replicate k (Some 1)"
    by (simp add: example_trades_def example_day_def comp_def map_replicate_const)
  then have m: "map the (filter (\<lambda>v. v \<noteq> None) (map model_version (example_trades k chosen)))
                  = replicate k 1"
    by simp
  have "fold max (replicate j (1::int)) 1 = 1"
    by (induction j) auto
  then show ?thesis
    unfolding get_current_model_version_def sql_max_def m by (simp add: k)
qed

text \<open>
  C1 (the code departs from it). \<open>upgrade_model\<close> takes the new version from
  \<open>MAX(model_version)\<close> of the \<open>trades\<close> table, which no promotion writes: two
  promotions in a row append one row each, and both rows carry the same version, the
  version read from \<open>trades\<close> plus one. On the example table (every row at the column's
  default 1) both promotions record version 2.
\<close>

theorem upgrade_model_repeats_version:
  "map version (model_history
       (upgrade_model env today2 code2 c2 a2 t2 (upgrade_model env today1 code1 c1 a1 t1 s)))
     = map version (model_history s)
         @ [get_current_model_version (trades s) + 1, get_current_model_version (trades s) + 1]
   \<and> map version (model_history
       (upgrade_model example_env ''2024-03-12'' momentum_code 1 1 ''daily''
          (upgrade_model example_env ''2024-03-11'' momentum_code 1 1 ''daily''
             (example_system 10 ''ETHUSD'' (Some volume_code))))) = [2, 2]"
  by (simp add: history_upgrade_model history_entry_def example_version)

lemma lstrip_any_none:
  "find (\<lambda>w. w \<noteq> [] \<and> startswith s w) ws = None \<Longrightarrow> lstrip_any ws s = s"
  by (simp add: lstrip_any.simps)

lemma py_strip_momentum: "py_strip momentum_code = momentum_code"
proof -
  have l: "lstrip_any whitespace momentum_code = momentum_code"
    by (rule lstrip_any_none) (simp add: whitespace_def momentum_code_def startswith_def)
  have r: "lstrip_any (map rev whitespace) (rev momentum_code) = rev momentum_code"
    by (rule lstrip_any_none) (simp add: whitespace_def momentum_code_def startswith_def)
  show ?thesis
    by (simp add: py_strip_def l r)
qed

lemma format_momentum: "format_code env momentum_code = momentum_code"
  by (simp add: format_code_def py_strip_momentum) (simp add: momentum_code_def startswith_def)

text \<open>
  Atomicity fails: when the \<open>INSERT\<close> raises, \<open>current_scorer.py\<close> already holds the
  new strategy while \<open>model_history\<close> has no row for it.
\<close>

theorem upgrade_model_crash_counterexample:
  "snd (upgrade_model_io InsertFails example_env ''2024-03-11'' momentum_code 1 1 ''daily''
          (example_system 10 ''ETHUSD'' (Some volume_code))) = Some IOFailure
   \<and> current_scorer_file
        (fst (upgrade_model_io InsertFails example_env ''2024-03-11'' momentum_code 1 1 ''daily''
               (example_system 10 ''ETHUSD'' (Some volume_code))))
       = Some (scorer_file_text 2 momentum_code)
   \<and> model_history
        (fst (upgrade_model_io InsertFails example_env ''2024-03-11'' momentum_code 1 1 ''daily''
               (example_system 10 ''ETHUSD'' (Some volume_code))))
       = []
   \<and> current_scorer_file (example_system 10 ''ETHUSD'' (Some volume_code)) = Some volume_code"
  by (simp add: upgrade_model_io_def backup_stage_def write_stage_def insert_stage_def
      write_new_version_def backup_old_version_def example_version format_momentum)

text \<open>
  C3, amended. The promotion is a sequence of three writes without rollback. When nothing
  fails, all three take effect: the old file is copied to the backup of the version read
  from \<open>trades\<close> (when there is an old file), the active file holds the new text, and
  exactly one row is appended to \<open>model_history\<close>. When the \<open>INSERT\<close> fails, the backup and
  the new active file stay and the history is unchanged. When writing the active file
  fails after it was opened, the backup stays, the history is unchanged and the active
  file is left truncated, with only the first part of the new text; when opening it
  fails, the active file is untouched.
\<close>

theorem upgrade_model_io_sequence:
  "(let old_version = get_current_model_version (trades s);
        backups = (case current_scorer_file s of
                     None \<Rightarrow> backup_files s
                   | Some old_code \<Rightarrow> (backup_files s)(old_version \<mapsto> old_code));
        new_text = scorer_file_text (old_version + 1) (format_code env code);
        row = \<lparr>history_id = Suc (fold max (map history_id (model_history s)) 0),
               history_date = today, version = old_version + 1,
               scorer_code = format_code env code, spearman_correlation = c,
               avg_daily_return = a, improvement_type = t\<rparr>
    in upgrade_model_io NoFault env today code c a t s
         = (s\<lparr>backup_files := backups, current_scorer_file := Some new_text,
              model_history := model_history s @ [row]\<rparr>, None)
     \<and> upgrade_model_io InsertFails env today code c a t s
         = (s\<lparr>backup_files := backups, current_scorer_file := Some new_text\<rparr>,
            Some IOFailure)
     \<and> upgrade_model_io (ScorerWriteFails n) env today code c a t s
         = (s\<lparr>backup_files := backups, current_scorer_file := Some (take n new_text)\<rparr>,
            Some IOFailure)
     \<and> upgrade_model_io ScorerOpenFails env today code c a t s
         = (s\<lparr>backup_files := backups\<rparr>, Some IOFailure))"
  by (simp add: Let_def upgrade_model_io_def backup_stage_def write_stage_def insert_stage_def
      record_in_history_def write_new_version_def backup_old_version_def history_entry_def
      split: option.splits)

lemma float_sub_example [simp]: "float_sub example_env a b = a - b"
  by (simp add: example_env_def)

lemma example_daily_deltas:
  "10 \<le> k \<Longrightarrow>
     daily_deltas example_env (example_system k chosen (Some momentum_code)) momentum_code
       correlation avg_return = Inr (correlation - 1, avg_return - example_outcome chosen)"
  by (simp add: daily_deltas_def example_backtest_momentum example_performance)

lemma example_backtest_current:
  "10 \<le> k \<Longrightarrow>
     backtest_current example_env (example_system k chosen (Some momentum_code))
       = Inr (Some (1, 1))"
  by (simp add: backtest_current_def example_backtest_momentum)

text \<open>
  The long-term cycle does not promote on every improvement at or above a threshold: on
  thirty days on which the bot had chosen ETHUSD and so recorded 0 percent, the baseline
  return is 0, which lines 391 and 392 take for no baseline. A candidate whose backtest
  return is 1, or exactly 0.25, above that baseline is not promoted, while the daily
  decision promotes the latter on the same state.
\<close>

theorem zero_baseline_counterexample:
  "backtest_scorer example_env (trades (example_system 30 ''ETHUSD'' (Some momentum_code)))
     momentum_code 180 = Inr (Some (1, 1))
   \<and> backtest_current example_env (example_system 30 ''ETHUSD'' (Some momentum_code))
      = Inr (Some (1, 1))
   \<and> fst (get_current_performance (trades (example_system 30 ''ETHUSD'' (Some momentum_code))))
      = Some 0
   \<and> (0.25 :: real) \<le> 1 - 0
   \<and> long_term_improvement example_env ''2024-03-31'' True (Some momentum_code)
        (example_system 30 ''ETHUSD'' (Some momentum_code))
      = example_system 30 ''ETHUSD'' (Some momentum_code)
   \<and> (0.25 :: real) - 0 = 0.25
   \<and> long_term_decision example_env ''2024-03-31'' momentum_code 1 0.25
        (example_system 30 ''ETHUSD'' (Some momentum_code))
      = example_system 30 ''ETHUSD'' (Some momentum_code)
   \<and> daily_decision example_env ''2024-03-31'' momentum_code 1 0.25
        (example_system 30 ''ETHUSD'' (Some momentum_code))
      = Inr (upgrade_model example_env ''2024-03-31'' momentum_code 1 0.25 ''daily''
               (example_system 30 ''ETHUSD'' (Some momentum_code)))
   \<and> upgrade_model example_env ''2024-03-31'' momentum_code 1 0.25 ''daily''
        (example_system 30 ''ETHUSD'' (Some momentum_code))
      \<noteq> example_system 30 ''ETHUSD'' (Some momentum_code)"
  by (simp add: example_backtest_momentum example_backtest_current example_performance
      long_term_improvement_def long_term_decision_def long_term_deltas_def
      daily_decision_def example_daily_deltas threshold_met_def example_resolved
      length_example_trades momentum_code_nonempty upgrade_model_changes)

text \<open>
  C7, amended. Each cycle promotes exactly when the correlation improvement it computed
  is at least 0.04 or the return improvement it computed is at least 0.25: a computed
  improvement of exactly 0.04, or of exactly 0.25, promotes, and 0.0399999 with a return
  improvement below 0.25 leaves the state as it is. The daily cycle computes the
  improvements as float differences from the active strategy's backtest correlation (0
  when that backtest returns \<open>None\<close>) and from the average recorded return; the long-term
  cycle computes an improvement as 0 when its baseline is 0, and as the float difference
  otherwise. A promotion changes the state: it appends one row with the new code, the
  cycle's improvement type and the version read from \<open>trades\<close> plus one, and writes the
  new active file.
\<close>

theorem promotion_threshold_inclusive:
  "(current_scorer_file s = Some current_code \<and> current_code \<noteq> []
      \<and> backtest_scorer env (trades s) current_code 180 = Inr active \<longrightarrow>
    (let corr_improvement =
           float_sub env correlation (case active of None \<Rightarrow> 0 | Some (c, r) \<Rightarrow> c);
         return_improvement =
           float_sub env avg_return
             (case fst (get_current_performance (trades s)) of None \<Rightarrow> 0 | Some avg \<Rightarrow> avg)
     in daily_decision env today code correlation avg_return s
          = Inr (if corr_improvement \<ge> 0.04 \<or> return_improvement \<ge> 0.25
                 then upgrade_model env today code correlation avg_return ''daily'' s
                 else s)
        \<and> (corr_improvement = 0.04 \<or> return_improvement = 0.25 \<longrightarrow>
             daily_decision env today code correlation avg_return s
               = Inr (upgrade_model env today code correlation avg_return ''daily'' s))
        \<and> (corr_improvement = 0.0399999 \<and> return_improvement < 0.25 \<longrightarrow>
             daily_decision env today code correlation avg_return s = Inr s)))
   \<and> (backtest_current env s = Inr (Some (current_corr, current_return))
      \<and> fst (get_current_performance (trades s)) = Some current_avg \<longrightarrow>
    (let corr_improvement =
           (if current_corr \<noteq> 0 then float_sub env correlation current_corr else 0);
         return_improvement =
           (if current_avg \<noteq> 0 then float_sub env avg_return current_avg else 0)
     in long_term_decision env today code correlation avg_return s
          = (if corr_improvement \<ge> 0.04 \<or> return_improvement \<ge> 0.25
             then upgrade_model env today code correlation avg_return ''long_term'' s
             else s)
        \<and> (corr_improvement = 0.04 \<or> return_improvement = 0.25 \<longrightarrow>
             long_term_decision env today code correlation avg_return s
               = upgrade_model env today code correlation avg_return ''long_term'' s)
        \<and> (corr_improvement = 0.0399999 \<and> return_improvement < 0.25 \<longrightarrow>
             long_term_decision env today code correlation avg_return s = s)))
   \<and> model_history (upgrade_model env today code correlation avg_return kind s)
      = model_history s @
          [\<lparr>history_id = Suc (fold max (map history_id (model_history s)) 0),
            history_date = today, version = get_current_model_version (trades s) + 1,
            scorer_code = format_code env code, spearman_correlation = correlation,
            avg_daily_return = avg_return, improvement_type = kind\<rparr>]
   \<and> current_scorer_file (upgrade_model env today code correlation avg_return kind s)
      = Some (scorer_file_text (get_current_model_version (trades s) + 1)
                (format_code env code))
   \<and> upgrade_model env today code correlation avg_return kind s \<noteq> s"
proof -
  have daily: "daily_decision env today code correlation avg_return s
      = Inr (if float_sub env correlation (case active of None \<Rightarrow> 0 | Some (c, r) \<Rightarrow> c) \<ge> 0.04
               \<or> float_sub env avg_return
                    (case fst (get_current_performance (trades s)) of
                       None \<Rightarrow> 0 | Some avg \<Rightarrow> avg) \<ge> 0.25
             then upgrade_model env today code correlation avg_return ''daily'' s
             else s)"
    if "current_scorer_file s = Some current_code" and "current_code \<noteq> []"
      and "backtest_scorer env (trades s) current_code 180 = Inr active"
    using that
    by (simp add: daily_decision_def daily_deltas_def threshold_met_def Let_def
        split: option.splits)
  have long_term: "long_term_decision env today code correlation avg_return s
      = (if (if current_corr \<noteq> 0 then float_sub env correlation current_corr else 0) \<ge> 0.04
            \<or> (if current_avg \<noteq> 0 then float_sub env avg_return current_avg else 0) \<ge> 0.25
         then upgrade_model env today code correlation avg_return ''long_term'' s
         else s)"
    if "backtest_current env s = Inr (Some (current_corr, current_return))"
      and "fst (get_current_performance (trades s)) = Some current_avg"
    using that
    by (simp add: long_term_decision_def long_term_deltas_def threshold_met_def)
  have effect: "model_history (upgrade_model env today code correlation avg_return kind s)
      = model_history s @
          [\<lparr>history_id = Suc (fold max (map history_id (model_history s)) 0),
            history_date = today, version = get_current_model_version (trades s) + 1,
            scorer_code = format_code env code, spearman_correlation = correlation,
            avg_daily_return = avg_return, improvement_type = kind\<rparr>]"
    by (simp add: history_upgrade_model history_entry_def)
  show ?thesis
    using daily long_term effect
    by (simp add: Let_def file_upgrade_model upgrade_model_changes)
qed

theorem promotion_threshold_inclusive_witness:
  "current_scorer_file (example_system 10 ''ETHUSD'' (Some ''this is not python''))
      = Some ''this is not python''
   \<and> ''this is not python'' \<noteq> []
   \<and> backtest_scorer example_env (trades (example_system 10 ''ETHUSD''
       (Some ''this is not python''))) ''this is not python'' 180 = Inr None
   \<and> fst (get_current_performance (trades (example_system 10 ''ETHUSD''
       (Some ''this is not python'')))) = Some 0
   \<and> float_sub example_env 0.04 0 = 0.04
   \<and> daily_decision example_env ''2024-03-11'' momentum_code 0.04 0
       (example_system 10 ''ETHUSD'' (Some ''this is not python''))
      = Inr (upgrade_model example_env ''2024-03-11'' momentum_code 0.04 0 ''daily''
          (example_system 10 ''ETHUSD'' (Some ''this is not python'')))
   \<and> float_sub example_env 0.0399999 0 = 0.0399999
   \<and> daily_decision example_env ''2024-03-11'' momentum_code 0.0399999 0
       (example_system 10 ''ETHUSD'' (Some ''this is not python'')) = Inr
           (example_system 10 ''ETHUSD'' (Some ''this is not python''))
   \<and> float_sub example_env 0.25 0 = 0.25
   \<and> daily_decision example_env ''2024-03-11'' momentum_code 0 0.25
       (example_system 10 ''ETHUSD'' (Some ''this is not python''))
      = Inr (upgrade_model example_env ''2024-03-11'' momentum_code 0 0.25 ''daily''
          (example_system 10 ''ETHUSD'' (Some ''this is not python'')))
   \<and> backtest_current example_env (example_system 30 ''BTCUSD'' (Some momentum_code)) = Inr
       (Some (1, 1))
   \<and> fst (get_current_performance (trades (example_system 30 ''BTCUSD'' (Some momentum_code))))
       = Some 1
   \<and> float_sub example_env 1.25 1 = 0.25
   \<and> long_term_decision example_env ''2024-03-31'' momentum_code 1 1.25
       (example_system 30 ''BTCUSD'' (Some momentum_code))
      = upgrade_model example_env ''2024-03-31'' momentum_code 1 1.25 ''long_term''
          (example_system 30 ''BTCUSD'' (Some momentum_code))
   \<and> long_term_decision example_env ''2024-03-31'' momentum_code 1 1
       (example_system 30 ''BTCUSD'' (Some momentum_code)) = (example_system 30 ''BTCUSD''
           (Some momentum_code))
   \<and> map improvement_type
        (model_history (upgrade_model example_env ''2024-03-31'' momentum_code 1 1.25
           ''long_term'' (example_system 30 ''BTCUSD'' (Some momentum_code)))) = [''long_term'']
   \<and> map version
        (model_history (upgrade_model example_env ''2024-03-11'' momentum_code 0.04 0
           ''daily'' (example_system 10 ''ETHUSD'' (Some ''this is not python'')))) = [2]"
  using promotion_threshold_inclusive
          [where env = example_env and s = "(example_system 10 ''ETHUSD''
              (Some ''this is not python''))"
             and current_code = "''this is not python''" and active = None
             and today = "''2024-03-11''" and code = momentum_code
             and correlation = "0.04" and avg_return = 0 and kind = "''daily''"]
        promotion_threshold_inclusive
          [where env = example_env and s = "(example_system 10 ''ETHUSD''
              (Some ''this is not python''))"
             and current_code = "''this is not python''" and active = None
             and today = "''2024-03-11''" and code = momentum_code
             and correlation = "0.0399999" and avg_return = 0]
        promotion_threshold_inclusive
          [where env = example_env and s = "(example_system 10 ''ETHUSD''
              (Some ''this is not python''))"
             and current_code = "''this is not python''" and active = None
             and today = "''2024-03-11''" and code = momentum_code
             and correlation = 0 and avg_return = "0.25"]
        promotion_threshold_inclusive
          [where env = example_env and s = "(example_system 30 ''BTCUSD'' (Some momentum_code))"
             and today = "''2024-03-31''" and code = momentum_code
             and correlation = 1 and avg_return = "1.25" and current_corr = 1
             and current_return = 1 and current_avg = 1 and kind = "''long_term''"]
        promotion_threshold_inclusive
          [where env = example_env and s = "(example_system 30 ''BTCUSD'' (Some momentum_code))"
             and today = "''2024-03-31''" and code = momentum_code
             and correlation = 1 and avg_return = 1 and current_corr = 1
             and current_return = 1 and current_avg = 1]
  by (simp add: example_backtest_broken example_backtest_current example_performance
      example_version Let_def)

text \<open>
  C8. With fewer than 10 resolved records (in the window, or at all) \<open>backtest_scorer\<close>
  returns \<open>(None, None)\<close> whatever the strategy text and the interpreter are. With at
  least 10 records in the window, a strategy that loads and realized returns present in
  every record, it returns the value of the specification: the Spearman coefficient of
  the one pooled sequence of rank pairs of every asset of every day, and the mean over
  the days of the realized return of the asset ranked first by score.
\<close>

theorem backtest_scorer_pooled_spearman:
  "(length (fetch_resolved tbl days) < 10 \<longrightarrow> backtest_scorer env tbl code days = Inr None)
   \<and> (length (filter resolved tbl) < 10 \<longrightarrow> backtest_scorer env tbl code days = Inr None)
   \<and> (10 \<le> length (fetch_resolved tbl days) \<and> exec_scorer env code = Some f
        \<and> (\<forall>row \<in> set (fetch_resolved tbl days). returns_known row) \<longrightarrow>
      backtest_scorer env tbl code days
        = Inr (Some (spec_backtest env f (fetch_resolved tbl days))))"
proof (intro conjI impI)
  assume "length (fetch_resolved tbl days) < 10"
  then show "backtest_scorer env tbl code days = Inr None"
    by (rule backtest_scorer_short)
next
  assume "length (filter resolved tbl) < 10"
  then have "length (fetch_resolved tbl days) < 10"
    by (simp add: length_fetch_resolved)
  then show "backtest_scorer env tbl code days = Inr None"
    by (rule backtest_scorer_short)
next
  assume "10 \<le> length (fetch_resolved tbl days) \<and> exec_scorer env code = Some f
            \<and> (\<forall>row \<in> set (fetch_resolved tbl days). returns_known row)"
  then show "backtest_scorer env tbl code days
               = Inr (Some (spec_backtest env f (fetch_resolved tbl days)))"
    using backtest_scorer_eq by blast
qed

lemma example_window_known:
  "list_all returns_known (fetch_resolved (example_trades k chosen) 180)"
  unfolding list_all_iff
  using set_fetch_resolved [of "example_trades k chosen" 180] example_rows example_day_known
  by blast

theorem backtest_scorer_pooled_spearman_witness:
  "length (fetch_resolved (example_trades 9 ''BTCUSD'') 180) < 10
   \<and> length (filter resolved (example_trades 9 ''BTCUSD'')) < 10
   \<and> backtest_scorer example_env (example_trades 9 ''BTCUSD'') momentum_code 180 = Inr None
   \<and> 10 \<le> length (fetch_resolved (example_trades 10 ''BTCUSD'') 180)
   \<and> exec_scorer example_env momentum_code = Some momentum
   \<and> list_all returns_known (fetch_resolved (example_trades 10 ''BTCUSD'') 180)
   \<and> backtest_scorer example_env (example_trades 10 ''BTCUSD'') momentum_code 180
      = Inr (Some (spec_backtest example_env momentum (fetch_resolved (example_trades 10 ''BTCUSD'') 180)))
   \<and> backtest_scorer example_env (example_trades 10 ''BTCUSD'') momentum_code 180
      = Inr (Some (1, 1))"
  using backtest_scorer_pooled_spearman [of "example_trades 9 ''BTCUSD''" 180 example_env momentum_code]
        backtest_scorer_pooled_spearman
          [of "example_trades 10 ''BTCUSD''" 180 example_env momentum_code momentum]
        example_window_known [of 10 "''BTCUSD''"] example_window_known [of 9 "''BTCUSD''"]
  by (simp add: example_window_length example_resolved length_example_trades exec_momentum
      list_all_iff example_backtest_momentum)

text \<open>
  The return improvement is not the difference of the two backtest returns. On ten days on
  which the bot had chosen ETHUSD and so recorded 0 percent, let the candidate be the
  active strategy itself: both backtests return the same pair, so both differences are 0,
  yet \<open>main\<close> computes the return improvement 1 - 0 and promotes.
\<close>

theorem return_delta_counterexample:
  "backtest_scorer example_env (trades (example_system 10 ''ETHUSD'' (Some momentum_code)))
     momentum_code 180 = Inr (Some (1, 1))
   \<and> daily_deltas example_env (example_system 10 ''ETHUSD'' (Some momentum_code)) momentum_code
        1 1 = Inr (0, 1)
   \<and> (1 :: real) \<noteq> 1 - 1
   \<and> \<not> threshold_met (1 - 1) (1 - 1)
   \<and> main example_env ''2024-03-11'' ''2024-03-10'' (Some momentum_code) 1 False None
        (example_system 10 ''ETHUSD'' (Some momentum_code))
        = Inr (upgrade_model example_env ''2024-03-11'' momentum_code 1 1 ''daily''
                 (example_system 10 ''ETHUSD'' (Some momentum_code)))
   \<and> map version (model_history (upgrade_model example_env ''2024-03-11'' momentum_code 1 1
        ''daily'' (example_system 10 ''ETHUSD'' (Some momentum_code)))) = [2]
   \<and> model_history (example_system 10 ''ETHUSD'' (Some momentum_code)) = []"
proof -
  obtain row where
    "find (\<lambda>r. date r = ''2024-03-10'') (example_trades 10 ''ETHUSD'') = Some row"
    using example_yesterday [of 10 "''ETHUSD''"] by auto
  then show ?thesis
    by (simp add: example_backtest_momentum example_daily_deltas main_def
        momentum_code_nonempty daily_decision_def threshold_met_def history_upgrade_model
        history_entry_def example_version)
qed

lemma resolved_outcomes_nonempty:
  assumes "backtest_scorer env tbl code days = Inr (Some result)"
  shows "10 \<le> length (filter resolved tbl)"
proof (rule ccontr)
  assume "\<not> 10 \<le> length (filter resolved tbl)"
  then have "length (fetch_resolved tbl days) < 10"
    by (simp add: length_fetch_resolved)
  from backtest_scorer_short [OF this] assms show False by simp
qed

text \<open>
  C2, amended. In every daily improvement cycle with an active strategy, candidate and
  active strategy are both backtested on the same table with the window 180. The
  correlation improvement is the candidate's backtest correlation minus the active
  strategy's backtest correlation (0 when that backtest returns \<open>None\<close>); the return
  improvement is the candidate's backtest return minus the average of
  \<open>actual_24h_return_of_chosen\<close> over all resolved rows. The daily decision promotes
  exactly when one of them meets its threshold, and \<open>main\<close> returns the decided state, on
  every thirtieth day after the long-term step has run on it. A promotion appends one
  \<open>daily\<close> row and writes the new active file.
\<close>

theorem main_daily_comparison:
  assumes "backtest_scorer env (trades s) code 180 = Inr (Some (correlation, avg_return))"
    and "current_scorer_file s = Some current_code"
    and "current_code \<noteq> []"
    and "backtest_scorer env (trades s) current_code 180 = Inr active"
  shows "(let corr_delta =
                float_sub env correlation (case active of None \<Rightarrow> 0 | Some (c, r) \<Rightarrow> c);
              return_delta =
                float_sub env avg_return
                  (sum_list (map (\<lambda>r. the (actual_24h_return_of_chosen r))
                               (filter resolved (trades s)))
                   / real (length (filter resolved (trades s))));
              decided =
                (if corr_delta \<ge> 0.04 \<or> return_delta \<ge> 0.25
                 then upgrade_model env today code correlation avg_return ''daily'' s
                 else s)
          in daily_decision env today code correlation avg_return s = Inr decided
           \<and> (find (\<lambda>r. date r = yesterday) (trades s) = Some yesterday_data \<and> code \<noteq> [] \<longrightarrow>
                main env today yesterday (Some code) days_since_start has_key answer s
                  = Inr (if days_since_start mod 30 = 0
                         then long_term_improvement env today has_key answer decided
                         else decided)))
       \<and> model_history (upgrade_model env today code correlation avg_return ''daily'' s)
          = model_history s @
              [\<lparr>history_id = Suc (fold max (map history_id (model_history s)) 0),
                history_date = today, version = get_current_model_version (trades s) + 1,
                scorer_code = format_code env code, spearman_correlation = correlation,
                avg_daily_return = avg_return, improvement_type = ''daily''\<rparr>]
       \<and> current_scorer_file (upgrade_model env today code correlation avg_return ''daily'' s)
          = Some (scorer_file_text (get_current_model_version (trades s) + 1)
                    (format_code env code))
       \<and> upgrade_model env today code correlation avg_return ''daily'' s \<noteq> s"
proof -
  from resolved_outcomes_nonempty [OF assms(1)]
  have "filter resolved (trades s) \<noteq> []" by auto
  then have perf: "fst (get_current_performance (trades s))
      = Some (sum_list (map (\<lambda>r. the (actual_24h_return_of_chosen r)) (filter resolved
          (trades s)))
              / real (length (filter resolved (trades s))))"
    by (simp add: get_current_performance_def Let_def)
  have deltas: "daily_deltas env s current_code correlation avg_return
      = Inr (float_sub env correlation (case active of None \<Rightarrow> 0 | Some (c, r) \<Rightarrow> c),
             float_sub env avg_return
               (sum_list (map (\<lambda>r. the (actual_24h_return_of_chosen r))
                            (filter resolved (trades s)))
                / real (length (filter resolved (trades s)))))"
    by (simp add: daily_deltas_def assms(4) perf)
  have decision: "daily_decision env today code correlation avg_return s
      = Inr (if float_sub env correlation (case active of None \<Rightarrow> 0 | Some (c, r) \<Rightarrow> c) \<ge> 0.04
               \<or> float_sub env avg_return
                    (sum_list (map (\<lambda>r. the (actual_24h_return_of_chosen r))
                                 (filter resolved (trades s)))
                     / real (length (filter resolved (trades s)))) \<ge> 0.25
             then upgrade_model env today code correlation avg_return ''daily'' s
             else s)"
    using assms(2,3) by (simp add: daily_decision_def deltas threshold_met_def)
  have run: "main env today yesterday (Some code) days_since_start has_key answer s
      = (case daily_decision env today code correlation avg_return s of
           Inl e \<Rightarrow> Inl e
         | Inr s' \<Rightarrow> Inr (if days_since_start mod 30 = 0
                          then long_term_improvement env today has_key answer s'
                          else s'))"
    if "find (\<lambda>r. date r = yesterday) (trades s) = Some yesterday_data" and "code \<noteq> []"
    using that assms(1) by (simp add: main_def split: sum.splits)
  have effect: "model_history (upgrade_model env today code correlation avg_return ''daily'' s)
      = model_history s @
          [\<lparr>history_id = Suc (fold max (map history_id (model_history s)) 0),
            history_date = today, version = get_current_model_version (trades s) + 1,
            scorer_code = format_code env code, spearman_correlation = correlation,
            avg_daily_return = avg_return, improvement_type = ''daily''\<rparr>]"
    by (simp add: history_upgrade_model history_entry_def)
  show ?thesis
    unfolding Let_def
    using decision run effect
    by (simp add: file_upgrade_model upgrade_model_changes)
qed

lemma example_date_30: "example_date 30 = ''2024-03-30''"
  by code_simp

lemma example_yesterday_30:
  "30 \<le> k \<Longrightarrow> \<exists>row. find (\<lambda>r. date r = ''2024-03-30'') (example_trades k chosen) = Some row"
proof (rule find_Some_ex)
  assume "30 \<le> k"
  then have "30 \<in> set [1 ..< Suc k]" by auto
  then show "example_day 30 chosen \<in> set (example_trades k chosen)"
    unfolding example_trades_def set_map by (rule imageI)
  show "date (example_day 30 chosen) = ''2024-03-30''"
    by (simp add: example_day_def example_date_30)
qed

lemma example_long_term_unchanged:
  "long_term_improvement example_env ''2024-03-31'' True (Some momentum_code)
      (example_system 30 ''BTCUSD'' (Some momentum_code)) = (example_system 30 ''BTCUSD''
          (Some momentum_code))"
  by (simp add: long_term_improvement_def long_term_decision_def long_term_deltas_def
      example_backtest_momentum example_backtest_current example_performance
      threshold_met_def example_resolved length_example_trades)

theorem main_daily_comparison_witness:
  "backtest_scorer example_env (trades (example_system 30 ''BTCUSD'' (Some momentum_code)))
      momentum_code 180 = Inr (Some (1, 1))
   \<and> current_scorer_file (example_system 30 ''BTCUSD'' (Some momentum_code))
       = Some momentum_code
   \<and> momentum_code \<noteq> []
   \<and> sum_list (map (\<lambda>r. the (actual_24h_return_of_chosen r)) (filter resolved (trades
       (example_system 30 ''BTCUSD'' (Some momentum_code)))))
       / real (length (filter resolved (trades (example_system 30 ''BTCUSD''
           (Some momentum_code))))) = 1
   \<and> daily_decision example_env ''2024-03-31'' momentum_code 1 1 (example_system 30 ''BTCUSD''
       (Some momentum_code)) = Inr (example_system 30 ''BTCUSD'' (Some momentum_code))
   \<and> main example_env ''2024-03-31'' ''2024-03-30'' (Some momentum_code) 90 True
        (Some momentum_code) (example_system 30 ''BTCUSD'' (Some momentum_code)) = Inr
            (example_system 30 ''BTCUSD'' (Some momentum_code))
   \<and> main example_env ''2024-03-31'' ''2024-03-30'' (Some momentum_code) 91 True
        (Some momentum_code) (example_system 30 ''BTCUSD'' (Some momentum_code)) = Inr
            (example_system 30 ''BTCUSD'' (Some momentum_code))"
proof -
  obtain row where
    y: "find (\<lambda>r. date r = ''2024-03-30'') (trades (example_system 30 ''BTCUSD''
        (Some momentum_code))) = Some row"
    using example_yesterday_30 [of 30 "''BTCUSD''"] by auto
  have c: "backtest_scorer example_env (trades (example_system 30 ''BTCUSD''
      (Some momentum_code))) momentum_code 180 = Inr (Some (1, 1))"
    by (simp add: example_backtest_momentum)
  have f: "current_scorer_file (example_system 30 ''BTCUSD'' (Some momentum_code))
      = Some momentum_code"
    by simp
  have avg: "sum_list (map (\<lambda>r. the (actual_24h_return_of_chosen r))
                         (filter resolved (trades (example_system 30 ''BTCUSD''
                             (Some momentum_code)))))
               / real (length (filter resolved (trades (example_system 30 ''BTCUSD''
                   (Some momentum_code))))) = 1"
    by (simp add: example_resolved sum_list_example_outcomes length_example_trades)
  from main_daily_comparison
         [OF c f momentum_code_nonempty c,
          where today = "''2024-03-31''" and yesterday = "''2024-03-30''"
            and yesterday_data = row and days_since_start = 90 and has_key = True
            and answer = "Some momentum_code"]
       main_daily_comparison
         [OF c f momentum_code_nonempty c,
          where today = "''2024-03-31''" and yesterday = "''2024-03-30''"
            and yesterday_data = row and days_since_start = 91 and has_key = True
            and answer = "Some momentum_code"]
       y c f
  show ?thesis
    by (simp add: Let_def momentum_code_nonempty example_long_term_unchanged
        example_resolved sum_list_example_outcomes length_example_trades)
qed

text \<open>
  C4. When a backtest reports insufficient data, that is, when fewer than 10 resolved
  records are fetched, it does so for the candidate and for the active strategy alike,
  and neither \<open>main\<close> nor \<open>long_term_improvement\<close> changes the state, whatever the oracle
  answered. More generally, a candidate whose backtest returns \<open>(None, None)\<close> for any
  reason leaves the state unchanged in both cycles, and so does an active strategy whose
  backtest returns \<open>(None, None)\<close> in the long-term cycle.
\<close>

theorem insufficient_data_no_action:
  "(length (fetch_resolved (trades s) 180) < 10 \<longrightarrow>
      backtest_scorer env (trades s) code 180 = Inr None
      \<and> backtest_current env s = Inr None
      \<and> main env today yesterday new_scorer_code days_since_start has_key answer s = Inr s
      \<and> long_term_improvement env today has_key answer s = s)
   \<and> (backtest_scorer env (trades s) code 180 = Inr None \<longrightarrow>
      main env today yesterday (Some code) days_since_start has_key answer s = Inr s
      \<and> long_term_improvement env today has_key (Some code) s = s)
   \<and> (backtest_current env s = Inr None \<longrightarrow>
      long_term_improvement env today has_key answer s = s)"
proof (intro conjI impI)
  assume few: "length (fetch_resolved (trades s) 180) < 10"
  then have none: "\<And>text. backtest_scorer env (trades s) text 180 = Inr None"
    by (simp add: backtest_scorer_short)
  show "backtest_scorer env (trades s) code 180 = Inr None"
    by (rule none)
  show "backtest_current env s = Inr None"
    by (simp add: backtest_current_def none split: option.splits)
  show "main env today yesterday new_scorer_code days_since_start has_key answer s = Inr s"
    by (simp add: main_def none split: option.splits)
  from few have "length (filter resolved (trades s)) < 30"
    by (simp add: length_fetch_resolved)
  then show "long_term_improvement env today has_key answer s = s"
    by (simp add: long_term_improvement_def)
next
  assume "backtest_scorer env (trades s) code 180 = Inr None"
  then show "main env today yesterday (Some code) days_since_start has_key answer s = Inr s"
    by (simp add: main_def split: option.splits)
next
  assume "backtest_scorer env (trades s) code 180 = Inr None"
  then show "long_term_improvement env today has_key (Some code) s = s"
    by (simp add: long_term_improvement_def)
next
  assume "backtest_current env s = Inr None"
  then show "long_term_improvement env today has_key answer s = s"
    by (simp add: long_term_improvement_def long_term_decision_def
        split: option.splits sum.splits)
qed

theorem insufficient_data_no_action_witness:
  "length (fetch_resolved (trades (example_system 9 ''BTCUSD'' (Some momentum_code))) 180) < 10
   \<and> backtest_scorer example_env (trades (example_system 9 ''BTCUSD'' (Some momentum_code)))
       momentum_code 180 = Inr None
   \<and> backtest_current example_env (example_system 9 ''BTCUSD'' (Some momentum_code)) = Inr None
   \<and> main example_env ''2024-03-10'' ''2024-03-09'' (Some momentum_code) 69 True
        (Some momentum_code) (example_system 9 ''BTCUSD'' (Some momentum_code)) = Inr
            (example_system 9 ''BTCUSD'' (Some momentum_code))
   \<and> long_term_improvement example_env ''2024-03-10'' True (Some momentum_code)
       (example_system 9 ''BTCUSD'' (Some momentum_code)) = (example_system 9 ''BTCUSD''
           (Some momentum_code))
   \<and> backtest_scorer example_env (trades (example_system 30 ''BTCUSD''
       (Some momentum_code))) ''this is not python'' 180 = Inr None
   \<and> main example_env ''2024-03-31'' ''2024-03-30'' (Some ''this is not python'') 90 True
        (Some ''this is not python'') (example_system 30 ''BTCUSD'' (Some momentum_code)) = Inr
            (example_system 30 ''BTCUSD'' (Some momentum_code))
   \<and> long_term_improvement example_env ''2024-03-31'' True (Some ''this is not python'')
       (example_system 30 ''BTCUSD'' (Some momentum_code))
      = (example_system 30 ''BTCUSD'' (Some momentum_code))
   \<and> backtest_current example_env (example_system 30 ''BTCUSD'' (Some ''this is not python''))
       = Inr None
   \<and> long_term_improvement example_env ''2024-03-31'' True (Some momentum_code)
       (example_system 30 ''BTCUSD'' (Some ''this is not python'')) =
           (example_system 30 ''BTCUSD'' (Some ''this is not python''))"
  using insufficient_data_no_action
          [where env = example_env and s = "(example_system 9 ''BTCUSD''
              (Some momentum_code))" and code = momentum_code
             and today = "''2024-03-10''" and yesterday = "''2024-03-09''"
             and new_scorer_code = "Some momentum_code" and days_since_start = 69
             and has_key = True and answer = "Some momentum_code"]
        insufficient_data_no_action
          [where env = example_env and s = "(example_system 30 ''BTCUSD''
              (Some momentum_code))" and code = "''this is not python''"
             and today = "''2024-03-31''" and yesterday = "''2024-03-30''"
             and days_since_start = 90 and has_key = True
             and answer = "Some ''this is not python''"]
        insufficient_data_no_action
          [where env = example_env and s = "(example_system 30 ''BTCUSD''
              (Some ''this is not python''))"
             and today = "''2024-03-31''" and has_key = True and answer = "Some momentum_code"]
  by (simp add: example_window_length example_backtest_broken backtest_current_def)

section \<open>Prediction\<close>

lemma predict_scores_error:
  "predict_scores f pd sent coins acc = Inl e \<Longrightarrow> e = ScorerRaised"
  by (induction coins arbitrary: acc) (auto split: option.splits)

lemma predict_scores_none_scorable:
  "\<forall>coin \<in> set coins. pd coin = None \<or> sent coin = None \<Longrightarrow>
     predict_scores f pd sent coins acc = Inr acc"
  by (induction coins arbitrary: acc) (auto split: option.splits)

lemma map_of_append_fresh:
  "k \<notin> fst ` set al \<Longrightarrow> map_of (al @ [(k, v)]) k = Some v"
  by (induction al) auto

lemma predict_scores_result:
  assumes "distinct coins" and "set coins \<inter> fst ` set acc = {}"
    and "predict_scores f pd sent coins acc = Inr scores"
  shows "map fst scores = map fst acc @ filter (\<lambda>c. pd c \<noteq> None \<and> sent c \<noteq> None) coins
       \<and> (\<forall>c cp cs. c \<in> set coins \<and> pd c = Some cp \<and> sent c = Some cs \<longrightarrow>
             map_of scores c
               = f (Some (dict_get cp ''return_24h'' 0)) (Some (dict_get cp ''return_6h'' 0))
                   (Some (dict_get cp ''volume_ratio'' 1)) (Some cs))
       \<and> (\<forall>c. c \<notin> set coins \<longrightarrow> map_of scores c = map_of acc c)"
  using assms
proof (induction coins arbitrary: acc)
  case Nil
  then show ?case by simp
next
  case (Cons coin coins)
  have d: "distinct coins" and fresh: "coin \<notin> fst ` set acc" and notin: "coin \<notin> set coins"
    and disj: "set coins \<inter> fst ` set acc = {}"
    using Cons.prems(1,2) by auto
  show ?case
  proof (cases "pd coin")
    case None
    with Cons.prems(3) have "predict_scores f pd sent coins acc = Inr scores" by simp
    from Cons.IH [OF d disj this] None notin show ?thesis by auto
  next
    case (Some cp)
    show ?thesis
    proof (cases "sent coin")
      case None
      with Some Cons.prems(3) have "predict_scores f pd sent coins acc = Inr scores" by simp
      from Cons.IH [OF d disj this] None notin show ?thesis by auto
    next
      case cs: (Some cs)
      let ?call = "f (Some (dict_get cp ''return_24h'' 0)) (Some (dict_get cp ''return_6h'' 0))
                     (Some (dict_get cp ''volume_ratio'' 1)) (Some cs)"
      from Some cs Cons.prems(3) obtain score where call: "?call = Some score"
        by (cases ?call) auto
      let ?acc = "acc @ [(coin, score)]"
      have rec: "predict_scores f pd sent coins ?acc = Inr scores"
        using Some cs call Cons.prems(3) by (simp add: update_fresh [OF fresh])
      have disj': "set coins \<inter> fst ` set ?acc = {}"
        using disj notin by auto
      note ih = Cons.IH [OF d disj' rec]
      have here: "map_of scores coin = Some score"
        using ih notin map_of_append_fresh [OF fresh, of score] by simp
      have other: "\<forall>c. c \<notin> set (coin # coins) \<longrightarrow> map_of scores c = map_of acc c"
        using ih by (auto simp: map_add_def split: option.splits)
      from ih Some cs call here other show ?thesis by auto
    qed
  qed
qed

lemma py_max_item_error: "py_max_item items = Inl e \<Longrightarrow> items = []"
  by (cases items) (auto simp: py_max_item_def)

lemma predict_best_coin_value_error:
  "predict_best_coin f pd sent = Inl ValueError
     \<longleftrightarrow> (\<forall>coin \<in> set COINS. pd coin = None \<or> sent coin = None)"
proof
  assume none: "\<forall>coin \<in> set COINS. pd coin = None \<or> sent coin = None"
  show "predict_best_coin f pd sent = Inl ValueError"
    by (simp add: predict_best_coin_def predict_scores_none_scorable [OF none])
next
  assume err: "predict_best_coin f pd sent = Inl ValueError"
  show "\<forall>coin \<in> set COINS. pd coin = None \<or> sent coin = None"
  proof (cases "predict_scores f pd sent COINS []")
    case (Inl e)
    with predict_scores_error [OF Inl] err show ?thesis
      by (simp add: predict_best_coin_def)
  next
    case (Inr scores)
    have "scores = []"
    proof (rule ccontr)
      assume ne: "scores \<noteq> []"
      then obtain b where "py_max_item scores = Inr b"
        by (cases scores) (auto simp: py_max_item_def)
      with Inr ne err show False by (simp add: predict_best_coin_def)
    qed
    with predict_scores_result [OF distinct_COINS _ Inr]
    have "filter (\<lambda>c. pd c \<noteq> None \<and> sent c \<noteq> None) COINS = []" by simp
    then show ?thesis by (auto simp: filter_empty_conv)
  qed
qed

text \<open>
  C5, amended. \<open>predict_best_coin\<close> scores exactly the coins that have both a price
  snapshot and a sentiment entry, in universe order, and skips the others; for a scored
  coin the fields missing from its snapshot take the defaults 0 (returns) and 1 (volume
  ratio). It fails with \<open>ValueError\<close> exactly when no coin has both.
\<close>

theorem predict_best_coin_skips_missing:
  "(predict_best_coin f pd sent = Inl ValueError
      \<longleftrightarrow> (\<forall>coin \<in> set COINS. pd coin = None \<or> sent coin = None))
   \<and> (predict_best_coin f pd sent = Inr (best, best_score, scores) \<longrightarrow>
        map fst scores = filter (\<lambda>coin. pd coin \<noteq> None \<and> sent coin \<noteq> None) COINS
      \<and> (\<forall>coin cp cs. coin \<in> set COINS \<and> pd coin = Some cp \<and> sent coin = Some cs \<longrightarrow>
            map_of scores coin
              = f (Some (dict_get cp ''return_24h'' 0)) (Some (dict_get cp ''return_6h'' 0))
                  (Some (dict_get cp ''volume_ratio'' 1)) (Some cs)))"
proof (intro conjI impI)
  show "predict_best_coin f pd sent = Inl ValueError
          \<longleftrightarrow> (\<forall>coin \<in> set COINS. pd coin = None \<or> sent coin = None)"
    by (rule predict_best_coin_value_error)
next
  assume ok: "predict_best_coin f pd sent = Inr (best, best_score, scores)"
  then have "predict_scores f pd sent COINS [] = Inr scores"
    by (auto simp: predict_best_coin_def split: sum.splits if_splits)
  from predict_scores_result [OF distinct_COINS _ this]
  show "map fst scores = filter (\<lambda>coin. pd coin \<noteq> None \<and> sent coin \<noteq> None) COINS"
    and "\<forall>coin cp cs. coin \<in> set COINS \<and> pd coin = Some cp \<and> sent coin = Some cs \<longrightarrow>
            map_of scores coin
              = f (Some (dict_get cp ''return_24h'' 0)) (Some (dict_get cp ''return_6h'' 0))
                  (Some (dict_get cp ''volume_ratio'' 1)) (Some cs)"
    by simp_all
qed

lemma example_prediction:
  "predict_best_coin volume_scorer example_prices example_sentiment
     = Inr (''ETHUSD'', 5, [(''ETHUSD'', 5), (''SOLUSD'', 1)])"
  by (simp add: predict_best_coin_def COINS_def example_prices_def example_sentiment_def
      volume_scorer_def dict_get_def py_max_item_def)

theorem predict_best_coin_skips_missing_witness:
  "predict_best_coin volume_scorer example_prices example_sentiment
     = Inr (''ETHUSD'', 5, [(''ETHUSD'', 5), (''SOLUSD'', 1)])
   \<and> map fst [(''ETHUSD'', 5::real), (''SOLUSD'', 1)]
       = filter (\<lambda>coin. example_prices coin \<noteq> None \<and> example_sentiment coin \<noteq> None) COINS
   \<and> ''SOLUSD'' \<in> set COINS \<and> example_prices ''SOLUSD'' = Some Map.empty
   \<and> example_sentiment ''SOLUSD'' = Some 0
   \<and> map_of [(''ETHUSD'', 5::real), (''SOLUSD'', 1)] ''SOLUSD''
       = volume_scorer (Some 0) (Some 0) (Some 1) (Some 0)
   \<and> predict_best_coin volume_scorer example_prices Map.empty = Inl ValueError
   \<and> list_all (\<lambda>coin. example_prices coin = None \<or> Map.empty coin
       = (None :: real option)) COINS"
  using predict_best_coin_skips_missing
          [where f = volume_scorer and pd = example_prices and sent = example_sentiment
             and best = "''ETHUSD''" and best_score = 5
             and scores = "[(''ETHUSD'', 5), (''SOLUSD'', 1)]"]
        predict_best_coin_skips_missing
          [where f = volume_scorer and pd = example_prices and sent = Map.empty]
        example_prediction
  by (simp add: COINS_def example_prices_def example_sentiment_def volume_scorer_def)

text \<open>
  A coin without a price snapshot is not scored with defaults but left out, and the
  engine fails although some coins have a snapshot, when none has a sentiment entry.
\<close>

theorem missing_snapshot_counterexample:
  "example_prices ''BTCUSD'' = None
   \<and> predict_best_coin volume_scorer example_prices example_sentiment
       = Inr (''ETHUSD'', 5, [(''ETHUSD'', 5), (''SOLUSD'', 1)])
   \<and> map_of [(''ETHUSD'', 5::real), (''SOLUSD'', 1)] ''BTCUSD'' = None
   \<and> example_prices ''ETHUSD'' \<noteq> None
   \<and> predict_best_coin volume_scorer example_prices Map.empty = Inl ValueError"
  by (simp add: example_prediction predict_best_coin_value_error)
     (simp add: example_prices_def)

text \<open>
  C6 (the code departs from it). In \<open>predict_best_coin\<close> a strategy call that raises
  for one coin ends the whole pass with that exception, although the next coin would
  score 2; the backtest catches the same failure and scores the coin 0.
\<close>

theorem predict_best_coin_propagates_scorer_failure:
  "ratio_scorer (Some 1) (Some 0) (Some 0) (Some 0.9) = None
   \<and> ratio_scorer (Some 2) (Some 0) (Some 1) (Some 0.5) = Some 2
   \<and> predict_best_coin ratio_scorer zero_volume_prices example_sentiment = Inl ScorerRaised
   \<and> score_or_zero ratio_scorer (example_day 1 ''ETHUSD'') ''BTCUSD'' = 0"
  by (simp add: predict_best_coin_def COINS_def zero_volume_prices_def example_sentiment_def
      ratio_scorer_def dict_get_def score_or_zero_def row_get_def example_day_def
      example_columns_def)

end
